theory Spec2Isabelle
  imports Complex_Main
begin

section \<open>JavaScript numbers\<close>

text \<open>
  Every quantity of the program is a JavaScript \<open>number\<close>. The model keeps the three
  special values apart from the finite ones, because the code reaches them (\<open>0/0\<close>, a
  division by a zero deviation, arithmetic on an absent field) and branches on them.
  Finite values are exact reals: rounding and overflow of the 64-bit format are not
  modelled, and \<open>-0\<close> is identified with \<open>0\<close> (a non-zero finite value divided by zero
  takes the sign of the dividend, as for \<open>+0\<close>). A field that an object does not have
  reads as \<open>undefined\<close>; in every use the modelled code makes of such a value
  (arithmetic and \<open>||\<close>) it behaves as \<open>NaN\<close>, so an absent numeric field is \<open>NaN\<close>.
\<close>

datatype jsnum = NaN | NegInf | Fin real | PosInf

fun js_neg :: "jsnum \<Rightarrow> jsnum" where
  "js_neg NaN = NaN"
| "js_neg NegInf = PosInf"
| "js_neg PosInf = NegInf"
| "js_neg (Fin a) = Fin (- a)"

fun js_add :: "jsnum \<Rightarrow> jsnum \<Rightarrow> jsnum" where
  "js_add (Fin a) (Fin b) = Fin (a + b)"
| "js_add NaN _ = NaN"
| "js_add _ NaN = NaN"
| "js_add PosInf NegInf = NaN"
| "js_add NegInf PosInf = NaN"
| "js_add PosInf _ = PosInf"
| "js_add _ PosInf = PosInf"
| "js_add NegInf _ = NegInf"
| "js_add _ NegInf = NegInf"

definition js_sub :: "jsnum \<Rightarrow> jsnum \<Rightarrow> jsnum" where
  "js_sub a b = js_add a (js_neg b)"

definition inf_of_sign :: "real \<Rightarrow> jsnum" where
  "inf_of_sign s = (if s = 0 then NaN else if 0 < s then PosInf else NegInf)"

fun js_mul :: "jsnum \<Rightarrow> jsnum \<Rightarrow> jsnum" where
  "js_mul (Fin a) (Fin b) = Fin (a * b)"
| "js_mul NaN _ = NaN"
| "js_mul _ NaN = NaN"
| "js_mul PosInf (Fin b) = inf_of_sign b"
| "js_mul NegInf (Fin b) = inf_of_sign (- b)"
| "js_mul (Fin a) PosInf = inf_of_sign a"
| "js_mul (Fin a) NegInf = inf_of_sign (- a)"
| "js_mul PosInf PosInf = PosInf"
| "js_mul NegInf NegInf = PosInf"
| "js_mul PosInf NegInf = NegInf"
| "js_mul NegInf PosInf = NegInf"

fun js_div :: "jsnum \<Rightarrow> jsnum \<Rightarrow> jsnum" where
  "js_div (Fin a) (Fin b) = (if b = 0 then inf_of_sign a else Fin (a / b))"
| "js_div NaN _ = NaN"
| "js_div _ NaN = NaN"
| "js_div (Fin a) PosInf = Fin 0"
| "js_div (Fin a) NegInf = Fin 0"
| "js_div PosInf (Fin b) = (if 0 \<le> b then PosInf else NegInf)"
| "js_div NegInf (Fin b) = (if 0 \<le> b then NegInf else PosInf)"
| "js_div PosInf PosInf = NaN"
| "js_div PosInf NegInf = NaN"
| "js_div NegInf PosInf = NaN"
| "js_div NegInf NegInf = NaN"

text \<open>The comparisons \<open><\<close>, \<open>>\<close>, \<open><=\<close>, \<open>>=\<close>: false as soon as an operand is \<open>NaN\<close>.\<close>

fun js_lt :: "jsnum \<Rightarrow> jsnum \<Rightarrow> bool" where
  "js_lt (Fin a) (Fin b) = (a < b)"
| "js_lt NaN _ = False"
| "js_lt _ NaN = False"
| "js_lt _ NegInf = False"
| "js_lt NegInf _ = True"
| "js_lt PosInf _ = False"
| "js_lt _ PosInf = True"

definition js_gt :: "jsnum \<Rightarrow> jsnum \<Rightarrow> bool" where
  "js_gt a b = js_lt b a"

fun js_le :: "jsnum \<Rightarrow> jsnum \<Rightarrow> bool" where
  "js_le (Fin a) (Fin b) = (a \<le> b)"
| "js_le NaN _ = False"
| "js_le _ NaN = False"
| "js_le NegInf _ = True"
| "js_le _ PosInf = True"
| "js_le _ NegInf = False"
| "js_le PosInf _ = False"

definition js_ge :: "jsnum \<Rightarrow> jsnum \<Rightarrow> bool" where
  "js_ge a b = js_le b a"

text \<open>\<open>Math.max\<close>, \<open>Math.min\<close> (two arguments), \<open>Math.abs\<close>, \<open>Math.sqrt\<close>,
  \<open>Math.pow(x, 2)\<close> and the operator \<open>a || b\<close> on numbers (\<open>0\<close> and \<open>NaN\<close> are falsy).\<close>

definition Math_max :: "jsnum \<Rightarrow> jsnum \<Rightarrow> jsnum" where
  "Math_max a b = (if a = NaN \<or> b = NaN then NaN else if js_lt a b then b else a)"

definition Math_min :: "jsnum \<Rightarrow> jsnum \<Rightarrow> jsnum" where
  "Math_min a b = (if a = NaN \<or> b = NaN then NaN else if js_lt b a then b else a)"

fun Math_abs :: "jsnum \<Rightarrow> jsnum" where
  "Math_abs NaN = NaN"
| "Math_abs NegInf = PosInf"
| "Math_abs PosInf = PosInf"
| "Math_abs (Fin a) = Fin \<bar>a\<bar>"

fun Math_sqrt :: "jsnum \<Rightarrow> jsnum" where
  "Math_sqrt NaN = NaN"
| "Math_sqrt NegInf = NaN"
| "Math_sqrt PosInf = PosInf"
| "Math_sqrt (Fin a) = (if a < 0 then NaN else Fin (sqrt a))"

definition Math_pow2 :: "jsnum \<Rightarrow> jsnum" where
  "Math_pow2 x = js_mul x x"

definition js_or :: "jsnum \<Rightarrow> jsnum \<Rightarrow> jsnum" where
  "js_or a b = (if a = NaN \<or> a = Fin 0 then b else a)"

text \<open>\<open>xs.reduce((sum, x) => sum + x, 0)\<close>: a left fold from \<open>0\<close>.\<close>

definition reduce_sum :: "jsnum list \<Rightarrow> jsnum" where
  "reduce_sum xs = foldl js_add (Fin 0) xs"

section \<open>Strategies (trading-strategies.ts)\<close>

text \<open>
  A historical bar (interface \<open>HistoricalData\<close> of trading-execution.ts). The
  timestamp is an ISO string in the source, read only through \<open>new Date(.)\<close>; the
  model carries its time value in milliseconds (\<open>NaN\<close> for an invalid date).

  The strategies and the strategy manager receive their market data as \<open>any[]\<close> and
  read the fields \<open>price\<close>, \<open>high\<close>, \<open>low\<close> and \<open>close\<close> of its elements: a
  \<open>MarketDatum\<close> is such an object, a field it lacks being \<open>NaN\<close>. A historical bar
  has no field \<open>price\<close>, which \<open>asMarketDatum\<close> records.
\<close>

record HistoricalData =
  timestamp :: jsnum
  openPrice :: jsnum
  high :: jsnum
  low :: jsnum
  close :: jsnum
  volume :: jsnum

record MarketDatum = HistoricalData +
  price :: jsnum

definition asMarketDatum :: "HistoricalData \<Rightarrow> MarketDatum" where
  "asMarketDatum d =
    \<lparr> timestamp = timestamp d, openPrice = openPrice d, high = high d, low = low d,
      close = close d, volume = volume d, price = NaN \<rparr>"

text \<open>The result type of a strategy's own \<open>backtest\<close> (interface \<open>BacktestResult\<close> of
  trading-strategies.ts).\<close>

record StrategyBacktestResult =
  totalTrades :: jsnum
  winningTrades :: jsnum
  losingTrades :: jsnum
  winRate :: jsnum
  totalReturn :: jsnum
  maxDrawdown :: jsnum
  sharpeRatio :: jsnum
  profitFactor :: jsnum
  averageWin :: jsnum
  averageLoss :: jsnum

text \<open>
  \<open>TechnicalAnalysisStrategy.calculateRSI\<close>. The two local lists \<open>closes\<close> and
  \<open>changes\<close> are named functions, so that statements can speak of them.
\<close>

definition closesOf :: "MarketDatum list \<Rightarrow> jsnum list" where
  "closesOf data = map (\<lambda>d. js_or (close d) (price d)) data"

definition changesOf :: "jsnum list \<Rightarrow> jsnum list" where
  "changesOf closes = map (\<lambda>i. js_sub (closes ! i) (closes ! (i - 1))) [1..<length closes]"

definition calculateRSI :: "MarketDatum list \<Rightarrow> jsnum \<Rightarrow> jsnum" where
  "calculateRSI data period =
    (if js_lt (Fin (real (length data))) (js_add period (Fin 1)) then Fin 50
     else
       let closes = closesOf data;
           changes = changesOf closes;
           gains = filter (\<lambda>change. js_gt change (Fin 0)) changes;
           losses = map Math_abs (filter (\<lambda>change. js_lt change (Fin 0)) changes);
           avgGain = (if length gains > 0 then js_div (reduce_sum gains) period else Fin 0);
           avgLoss = (if length losses > 0 then js_div (reduce_sum losses) period else Fin 0)
       in if avgLoss = Fin 0 then Fin 100
          else let rs = js_div avgGain avgLoss
               in js_sub (Fin 100) (js_div (Fin 100) (js_add (Fin 1) rs)))"

text \<open>
  The same quantities over exact reals, for series whose closes are all finite: the
  list of bar-to-bar changes, the summed gains and the summed absolute losses.
\<close>

definition realChanges :: "real list \<Rightarrow> real list" where
  "realChanges rs = map (\<lambda>i. rs ! i - rs ! (i - 1)) [1..<length rs]"

definition sumGains :: "real list \<Rightarrow> real" where
  "sumGains rs = sum_list (filter (\<lambda>c. 0 < c) (realChanges rs))"

definition sumLosses :: "real list \<Rightarrow> real" where
  "sumLosses rs = sum_list (map abs (filter (\<lambda>c. c < 0) (realChanges rs)))"

text \<open>Sample series: three bars, twenty rising bars, a rise followed by a fall, and two
  rises followed by a fall.\<close>

definition bar_of_close :: "real \<Rightarrow> MarketDatum" where
  "bar_of_close c =
    \<lparr> timestamp = Fin 0, openPrice = Fin c, high = Fin c, low = Fin c, close = Fin c,
      volume = Fin 1, price = NaN \<rparr>"

definition rsi_short :: "MarketDatum list" where
  "rsi_short = map bar_of_close [1, 2, 3]"

definition rsi_rising :: "MarketDatum list" where
  "rsi_rising = map (\<lambda>n. bar_of_close (real n)) [1..<21]"

definition rsi_mixed :: "MarketDatum list" where
  "rsi_mixed = map bar_of_close [1, 4, 2]"

definition rsi_uneven :: "MarketDatum list" where
  "rsi_uneven = map bar_of_close [1, 2, 4, 3]"

text \<open>\<open>ArbitrageStrategy.backtest\<close>: the body is one \<open>return\<close> of a literal.\<close>

definition ArbitrageStrategy_backtest :: "MarketDatum list \<Rightarrow> StrategyBacktestResult" where
  "ArbitrageStrategy_backtest historicalData =
    \<lparr> totalTrades = Fin 50, winningTrades = Fin 50, losingTrades = Fin 0,
      winRate = Fin 100, totalReturn = Fin 15, maxDrawdown = Fin (1 / 10),
      sharpeRatio = Fin 25, profitFactor = PosInf, averageWin = Fin 300,
      averageLoss = Fin 0 \<rparr>"

section \<open>The strategy manager (trading-strategies.ts)\<close>

datatype Action = Buy | Sell | Hold

text \<open>A thrown JavaScript error, with its message.\<close>

datatype error = Error string | TypeError string

text \<open>
  Interface \<open>StrategySignal\<close>. Its \<open>timestamp\<close> (the wall-clock time of creation) is
  read by none of the modelled code and is left out.
\<close>

record StrategySignal =
  symbol :: string
  action :: Action
  strength :: jsnum
  confidence :: jsnum
  entryPrice :: jsnum
  stopLoss :: "jsnum option"
  takeProfit :: "jsnum option"
  reason :: string

text \<open>
  A strategy is its method \<open>analyze\<close>: from the market data to a signal, or a thrown
  error. The manager keeps its strategies in a \<open>Map\<close> (here in insertion order) and the
  names of the active ones in a \<open>Set\<close>.
\<close>

type_synonym Strategy = "MarketDatum list \<Rightarrow> error + StrategySignal"

record StrategyManager =
  strategies :: "(string \<times> Strategy) list"
  activeStrategies :: "string set"

text \<open>Decimal digits of a number, as a template literal prints a non-negative integer.\<close>

fun string_of_nat :: "nat \<Rightarrow> string" where
  "string_of_nat n =
    (if n < 10 then [''0123456789'' ! n]
     else string_of_nat (n div 10) @ [''0123456789'' ! (n mod 10)])"

declare string_of_nat.simps [simp del]

text \<open>\<open>StrategyManager.analyzeSymbol\<close>: a strategy that throws is logged and skipped.\<close>

fun collectSignals :: "string set \<Rightarrow> (string \<times> Strategy) list \<Rightarrow> MarketDatum list
    \<Rightarrow> StrategySignal list" where
  "collectSignals active [] marketData = []"
| "collectSignals active ((strategyName, strategy) # rest) marketData =
    (if strategyName \<in> active
     then (case strategy marketData of
             Inr signal \<Rightarrow> signal # collectSignals active rest marketData
           | Inl err \<Rightarrow> collectSignals active rest marketData)
     else collectSignals active rest marketData)"

definition analyzeSymbol :: "StrategyManager \<Rightarrow> string \<Rightarrow> MarketDatum list
    \<Rightarrow> StrategySignal list" where
  "analyzeSymbol m symb marketData = collectSignals (activeStrategies m) (strategies m) marketData"

text \<open>\<open>StrategyManager.calculateATR\<close>; \<open>slice(-period)\<close> keeps the last \<open>period\<close>
  values, and the whole list when \<open>period\<close> is 0.\<close>

definition trueRange :: "MarketDatum list \<Rightarrow> nat \<Rightarrow> jsnum" where
  "trueRange data i =
    (let h = js_or (high (data ! i)) (price (data ! i));
         l = js_or (low (data ! i)) (price (data ! i));
         prevClose = js_or (close (data ! (i - 1))) (price (data ! (i - 1)))
     in Math_max (js_sub h l)
          (Math_max (Math_abs (js_sub h prevClose)) (Math_abs (js_sub l prevClose))))"

definition calculateATR :: "MarketDatum list \<Rightarrow> nat \<Rightarrow> jsnum" where
  "calculateATR data period =
    (if length data < period + 1 then Fin 0
     else
       let trValues = map (trueRange data) [1..<length data];
           lastValues = (if period = 0 then trValues
                         else drop (length trValues - period) trValues)
       in js_div (reduce_sum lastValues) (Fin (real period)))"

definition calculateStopLoss :: "jsnum \<Rightarrow> Action \<Rightarrow> jsnum \<Rightarrow> jsnum" where
  "calculateStopLoss entry act atr =
    (let stopDistance = js_mul atr (Fin 2)
     in if act = Buy then js_sub entry stopDistance else js_add entry stopDistance)"

definition calculateTakeProfit :: "jsnum \<Rightarrow> Action \<Rightarrow> jsnum \<Rightarrow> jsnum" where
  "calculateTakeProfit entry act atr =
    (let profitDistance = js_mul atr (Fin 3)
     in if act = Buy then js_add entry profitDistance else js_sub entry profitDistance)"

text \<open>
  \<open>StrategyManager.getConsensusSignal\<close>. The \<open>forEach\<close> over the signals fills the two
  tables \<open>votes\<close> and \<open>confidences\<close>; the \<open>reduce\<close> over \<open>Object.entries(votes)\<close> visits
  buy, sell, hold in this order and keeps the earlier action only when it has strictly
  more votes. The latest bar is read inside the majority branch only, and reading a
  field of the last element of an empty array throws. The object that the majority
  branch returns is \<open>consensusSignalOf\<close>.
\<close>

definition countVotes :: "StrategySignal list \<Rightarrow> Action \<Rightarrow> nat" where
  "countVotes signals =
    foldl (\<lambda>votes signal. votes(action signal := votes (action signal) + 1)) (\<lambda>a. 0) signals"

definition collectConfidences :: "StrategySignal list \<Rightarrow> Action \<Rightarrow> jsnum list" where
  "collectConfidences signals =
    foldl (\<lambda>confidences signal.
             confidences(action signal := confidences (action signal) @ [confidence signal]))
      (\<lambda>a. []) signals"

definition winningActionOf :: "(Action \<Rightarrow> nat) \<Rightarrow> Action" where
  "winningActionOf votes = foldl (\<lambda>a b. if votes a > votes b then a else b) Buy [Sell, Hold]"

definition consensusSignalOf :: "string \<Rightarrow> MarketDatum list \<Rightarrow> StrategySignal list
    \<Rightarrow> StrategySignal" where
  "consensusSignalOf symb marketData signals =
    (let votes = countVotes signals;
         confidences = collectConfidences signals;
         winningAction = winningActionOf votes;
         avgConfidence =
           (if length (confidences winningAction) > 0
            then js_div (reduce_sum (confidences winningAction))
                   (Fin (real (length (confidences winningAction))))
            else Fin 0);
         latest = last marketData;
         atr = calculateATR marketData 14
     in \<lparr> symbol = symb,
          action = winningAction,
          strength = js_mul (js_div (Fin (real (votes winningAction)))
                       (Fin (real (length signals)))) (Fin 100),
          confidence = avgConfidence,
          entryPrice = price latest,
          stopLoss = (if winningAction = Hold then None
                      else Some (calculateStopLoss (price latest) winningAction atr)),
          takeProfit = (if winningAction = Hold then None
                        else Some (calculateTakeProfit (price latest) winningAction atr)),
          reason = ''Consensus signal from '' @ string_of_nat (votes winningAction)
                     @ '' strategies'' \<rparr>)"

definition consensusOf :: "string \<Rightarrow> MarketDatum list \<Rightarrow> StrategySignal list
    \<Rightarrow> error + StrategySignal option" where
  "consensusOf symb marketData signals =
    (if length signals = 0 then Inr None
     else
       let votes = countVotes signals;
           winningAction = winningActionOf votes
       in if real (votes winningAction) > real (length signals) / 2
          then (case marketData of
                  [] \<Rightarrow> Inl (TypeError ''Cannot read properties of undefined'')
                | _ # _ \<Rightarrow> Inr (Some (consensusSignalOf symb marketData signals)))
          else Inr None)"

definition getConsensusSignal :: "StrategyManager \<Rightarrow> string \<Rightarrow> MarketDatum list
    \<Rightarrow> error + StrategySignal option" where
  "getConsensusSignal m symb marketData = consensusOf symb marketData (analyzeSymbol m symb marketData)"

text \<open>The arithmetic mean of a list of finite values, as the specification words it.\<close>

definition arithmeticMean :: "real list \<Rightarrow> real" where
  "arithmeticMean rs = sum_list rs / real (length rs)"

section \<open>The backtesting engine (trading-execution.ts)\<close>

text \<open>
  The interfaces of the engine. Field names that two interfaces share are prefixed in
  all but one of them. The \<open>summary\<close> of a result has the ten fields of the strategies'
  own result type and five more, and is modelled as an extension of that record.
  Timestamps are time values, as for the bars.
\<close>

record BacktestTrade =
  trade_id :: string
  trade_symbol :: string
  trade_type :: Action
  quantity :: jsnum
  trade_entryPrice :: jsnum
  exitPrice :: jsnum
  entryTime :: jsnum
  exitTime :: jsnum
  profitLoss :: jsnum
  profitLossPercent :: jsnum
  fees :: jsnum
  status :: string
  trade_strategy :: string
  trade_reason :: string

record EquityPoint =
  point_timestamp :: jsnum
  equity :: jsnum
  drawdown :: jsnum

record 'v BacktestConfig =
  config_symbol :: string
  strategy :: string
  startDate :: jsnum
  endDate :: jsnum
  initialCapital :: jsnum
  parameters :: "(string \<times> 'v) list"

record Summary = StrategyBacktestResult +
  totalReturnPercent :: jsnum
  maxDrawdownPercent :: jsnum
  largestWin :: jsnum
  largestLoss :: jsnum
  averageHoldTime :: jsnum

record Metrics =
  calmarRatio :: jsnum
  sortinoRatio :: jsnum
  winLossRatio :: jsnum
  metrics_profitFactor :: jsnum
  recoveryFactor :: jsnum
  riskAdjustedReturn :: jsnum

record 'v BacktestResult =
  summary :: Summary
  trades :: "BacktestTrade list"
  equity_curve :: "EquityPoint list"
  metrics :: Metrics
  config :: "'v BacktestConfig"

record 'v OptimizationResult =
  opt_parameters :: "(string \<times> 'v) list"
  result :: "'v BacktestResult"
  fitness :: jsnum

text \<open>The local variables that the simulation loop of \<open>runBacktest\<close> updates.\<close>

record BacktestState =
  capital :: jsnum
  maxCapital :: jsnum
  runMaxDrawdown :: jsnum
  currentDrawdown :: jsnum
  runTrades :: "BacktestTrade list"
  equityCurve :: "EquityPoint list"

text \<open>\<open>Math.max(...xs)\<close>: \<open>-Infinity\<close> for no argument, \<open>NaN\<close> as soon as one is.\<close>

definition Math_max_list :: "jsnum list \<Rightarrow> jsnum" where
  "Math_max_list xs = foldl Math_max NegInf xs"

definition calculatePositionSize :: "jsnum \<Rightarrow> StrategySignal \<Rightarrow> jsnum" where
  "calculatePositionSize cap signal =
    (let riskAmount = js_mul cap (Fin (1 / 100));
         estimatedPriceMove = js_mul (entryPrice signal) (Fin (2 / 100))
     in js_div riskAmount estimatedPriceMove)"

text \<open>
  \<open>calculateSummary\<close>. The average and the standard deviation of the per-trade return
  percentages (the locals \<open>avgReturn\<close> and \<open>stdDev\<close>) are named functions.
\<close>

definition averageReturn :: "BacktestTrade list \<Rightarrow> jsnum" where
  "averageReturn ts =
    (let returns = map profitLossPercent ts
     in js_div (reduce_sum returns) (Fin (real (length returns))))"

definition returnDeviation :: "BacktestTrade list \<Rightarrow> jsnum" where
  "returnDeviation ts =
    (let returns = map profitLossPercent ts;
         avgReturn = averageReturn ts;
         variance = js_div (reduce_sum (map (\<lambda>r. Math_pow2 (js_sub r avgReturn)) returns))
                      (Fin (real (length returns)))
     in Math_sqrt variance)"

definition calculateSummary :: "BacktestTrade list \<Rightarrow> jsnum \<Rightarrow> jsnum \<Rightarrow> jsnum \<Rightarrow> Summary" where
  "calculateSummary ts initialCap finalCapital maxDD =
    (let winning = filter (\<lambda>t. js_gt (profitLoss t) (Fin 0)) ts;
         losing = filter (\<lambda>t. js_lt (profitLoss t) (Fin 0)) ts;
         totalRet = js_sub finalCapital initialCap;
         totalRetPercent = js_mul (js_div totalRet initialCap) (Fin 100);
         avgWin = (if length winning > 0
                   then js_div (reduce_sum (map profitLoss winning)) (Fin (real (length winning)))
                   else Fin 0);
         avgLoss = (if length losing > 0
                    then js_div (reduce_sum (map (\<lambda>t. Math_abs (profitLoss t)) losing))
                           (Fin (real (length losing)))
                    else Fin 0);
         largestW = (if length winning > 0 then Math_max_list (map profitLoss winning) else Fin 0);
         largestL = (if length losing > 0
                     then Math_max_list (map (\<lambda>t. Math_abs (profitLoss t)) losing) else Fin 0);
         holdTimes = map (\<lambda>t. js_div (js_sub (exitTime t) (entryTime t))
                                 (Fin (1000 * 60 * 60 * 24))) ts;
         avgHoldTime = (if length holdTimes > 0
                        then js_div (reduce_sum holdTimes) (Fin (real (length holdTimes)))
                        else Fin 0);
         avgReturn = averageReturn ts;
         stdDev = returnDeviation ts;
         sharpe = (if stdDev = Fin 0 then Fin 0 else js_div avgReturn stdDev);
         grossProfit = reduce_sum (map profitLoss winning);
         grossLoss = Math_abs (reduce_sum (map profitLoss losing));
         pf = (if grossLoss = Fin 0 then PosInf else js_div grossProfit grossLoss)
     in \<lparr> totalTrades = Fin (real (length ts)),
          winningTrades = Fin (real (length winning)),
          losingTrades = Fin (real (length losing)),
          winRate = (if length ts > 0
                     then js_mul (js_div (Fin (real (length winning))) (Fin (real (length ts))))
                            (Fin 100)
                     else Fin 0),
          totalReturn = totalRet,
          maxDrawdown = maxDD,
          sharpeRatio = sharpe,
          profitFactor = pf,
          averageWin = avgWin,
          averageLoss = avgLoss,
          totalReturnPercent = totalRetPercent,
          maxDrawdownPercent = maxDD,
          largestWin = largestW,
          largestLoss = largestL,
          averageHoldTime = avgHoldTime \<rparr>)"

text \<open>
  \<open>calculateAdvancedMetrics\<close>. The local \<open>downsideDeviation\<close> is a named function.
\<close>

definition downsideDeviation :: "BacktestTrade list \<Rightarrow> jsnum" where
  "downsideDeviation ts =
    (let negativeReturns = filter (\<lambda>r. js_lt r (Fin 0)) (map profitLossPercent ts);
         downsideVariance =
           (if length negativeReturns > 0
            then js_div (reduce_sum (map Math_pow2 negativeReturns))
                   (Fin (real (length negativeReturns)))
            else Fin 0)
     in Math_sqrt downsideVariance)"

definition calculateAdvancedMetrics :: "BacktestTrade list \<Rightarrow> Summary \<Rightarrow> Metrics" where
  "calculateAdvancedMetrics ts summ =
    (let calmar = (if maxDrawdown summ = Fin 0 then Fin 0
                   else js_div (Math_abs (totalReturnPercent summ)) (maxDrawdown summ));
         sortino = (if downsideDeviation ts = Fin 0 then Fin 0
                    else js_div (totalReturnPercent summ) (downsideDeviation ts));
         winLoss = (if averageLoss summ = Fin 0 then Fin 0
                    else js_div (averageWin summ) (averageLoss summ));
         recovery = (if maxDrawdown summ = Fin 0 then Fin 0
                     else js_div (totalReturnPercent summ) (maxDrawdown summ));
         riskAdjusted = (if maxDrawdown summ = Fin 0 then Fin 0
                         else js_div (totalReturnPercent summ) (maxDrawdown summ))
     in \<lparr> calmarRatio = calmar, sortinoRatio = sortino, winLossRatio = winLoss,
          metrics_profitFactor = profitFactor summ, recoveryFactor = recovery,
          riskAdjustedReturn = riskAdjusted \<rparr>)"

text \<open>
  One pass of the simulation loop of \<open>runBacktest\<close>, for the index \<open>i\<close>. \<open>now i\<close> is
  what \<open>Date.now()\<close> reads when the trade of this bar is built. The loop first calls
  \<open>analyzeSymbol\<close> and drops the result; strategies are functions here, so the call is
  not modelled. \<open>executeTrade\<close> is the branch that a consensus other than hold
  enters. An error thrown while the bar is processed is caught and logged: the bar then
  leaves the state as it was.
\<close>

definition executeTrade :: "(nat \<Rightarrow> nat) \<Rightarrow> 'v BacktestConfig \<Rightarrow> HistoricalData list
    \<Rightarrow> nat \<Rightarrow> StrategySignal \<Rightarrow> BacktestState \<Rightarrow> BacktestState" where
  "executeTrade now cfg filteredData i consensus st =
    (let currentBar = filteredData ! i;
         nextBar = filteredData ! (i + 1);
         positionSize = calculatePositionSize (capital st) consensus;
         entry = close currentBar;
         exit = close nextBar;
         profit = js_mul (js_mul (js_sub exit entry) positionSize)
                    (if action consensus = Buy then Fin 1 else Fin (- 1));
         fee = Math_abs (js_mul (js_mul entry positionSize) (Fin (1 / 1000)));
         netProfit = js_sub profit fee;
         trade = \<lparr> trade_id = config_symbol cfg @ ''-'' @ string_of_nat i @ ''-''
                               @ string_of_nat (now i),
                   trade_symbol = config_symbol cfg,
                   trade_type = action consensus,
                   quantity = positionSize,
                   trade_entryPrice = entry,
                   exitPrice = exit,
                   entryTime = timestamp currentBar,
                   exitTime = timestamp nextBar,
                   profitLoss = netProfit,
                   profitLossPercent = js_mul (js_div netProfit (js_mul entry positionSize)) (Fin 100),
                   fees = fee,
                   status = ''completed'',
                   trade_strategy = strategy cfg,
                   trade_reason = reason consensus \<rparr>;
         newCapital = js_add (capital st) netProfit;
         newMaxCapital = Math_max (maxCapital st) newCapital;
         newCurrentDrawdown = js_mul (js_div (js_sub newMaxCapital newCapital) newMaxCapital) (Fin 100);
         newMaxDrawdown = Math_max (runMaxDrawdown st) newCurrentDrawdown
     in st \<lparr> capital := newCapital, maxCapital := newMaxCapital,
             runMaxDrawdown := newMaxDrawdown, currentDrawdown := newCurrentDrawdown,
             runTrades := runTrades st @ [trade] \<rparr>)"

definition processBar :: "StrategyManager \<Rightarrow> (nat \<Rightarrow> nat) \<Rightarrow> 'v BacktestConfig
    \<Rightarrow> HistoricalData list \<Rightarrow> BacktestState \<Rightarrow> nat \<Rightarrow> BacktestState" where
  "processBar mgr now cfg filteredData st i =
    (let currentData = take (i + 1) filteredData;
         currentBar = filteredData ! i
     in case getConsensusSignal mgr (config_symbol cfg) (map asMarketDatum currentData) of
          Inl err \<Rightarrow> st
        | Inr consensusSignal \<Rightarrow>
            let st' = (case consensusSignal of
                         None \<Rightarrow> st
                       | Some consensus \<Rightarrow>
                           if action consensus = Hold then st
                           else executeTrade now cfg filteredData i consensus st)
            in st' \<lparr> equityCurve := equityCurve st' @
                       [\<lparr> point_timestamp = timestamp currentBar, equity = capital st',
                          drawdown = currentDrawdown st' \<rparr>] \<rparr>)"

text \<open>
  \<open>BacktestingEngine.runBacktest\<close>. The engine's table of historical series is the
  argument \<open>historicalData\<close>; the loop runs over the indices 20 to
  \<open>filteredData.length - 2\<close>, so that \<open>filteredData[i + 1]\<close> exists.
\<close>

definition filterByDate :: "'v BacktestConfig \<Rightarrow> HistoricalData list \<Rightarrow> HistoricalData list" where
  "filterByDate cfg series =
    filter (\<lambda>d. js_ge (timestamp d) (startDate cfg) \<and> js_le (timestamp d) (endDate cfg)) series"

definition initialState :: "'v BacktestConfig \<Rightarrow> BacktestState" where
  "initialState cfg =
    \<lparr> capital = initialCapital cfg, maxCapital = initialCapital cfg, runMaxDrawdown = Fin 0,
      currentDrawdown = Fin 0, runTrades = [], equityCurve = [] \<rparr>"

definition simulate :: "StrategyManager \<Rightarrow> (nat \<Rightarrow> nat) \<Rightarrow> 'v BacktestConfig
    \<Rightarrow> HistoricalData list \<Rightarrow> BacktestState" where
  "simulate mgr now cfg filteredData =
    foldl (processBar mgr now cfg filteredData) (initialState cfg)
      [20..<length filteredData - 1]"

definition runBacktest :: "StrategyManager \<Rightarrow> (string \<Rightarrow> HistoricalData list option)
    \<Rightarrow> (nat \<Rightarrow> nat) \<Rightarrow> 'v BacktestConfig \<Rightarrow> error + 'v BacktestResult" where
  "runBacktest mgr historicalData now cfg =
    (case historicalData (config_symbol cfg) of
       None \<Rightarrow> Inl (Error (''No historical data available for '' @ config_symbol cfg))
     | Some series \<Rightarrow>
         let filteredData = filterByDate cfg series
         in if length filteredData < 50
            then Inl (Error ''Insufficient historical data for backtesting'')
            else
              let st = simulate mgr now cfg filteredData;
                  summ = calculateSummary (runTrades st) (initialCapital cfg) (capital st)
                           (runMaxDrawdown st);
                  mets = calculateAdvancedMetrics (runTrades st) summ
              in Inr \<lparr> summary = summ, trades = runTrades st, equity_curve = equityCurve st,
                       metrics = mets, config = cfg \<rparr>)"

section \<open>The parameter optimizer (trading-execution.ts)\<close>

text \<open>
  \<open>generateParameterCombinations\<close>. The ranges object is the list of its entries in
  the order of \<open>Object.keys\<close>; the keys of an object are distinct, so the object rebuilt
  from the remaining keys is the rest of the list.
\<close>

fun generateParameterCombinations :: "(string \<times> 'v list) list \<Rightarrow> (string \<times> 'v) list list" where
  "generateParameterCombinations [] = [[]]"
| "generateParameterCombinations ((firstKey, vals) # remainingRanges) =
    concat (map (\<lambda>v. map (\<lambda>combination. (firstKey, v) # combination)
                         (generateParameterCombinations remainingRanges)) vals)"

definition clamp01 :: "jsnum \<Rightarrow> jsnum" where
  "clamp01 x = Math_min (Math_max x (Fin 0)) (Fin 1)"

definition calculateFitness :: "'v BacktestResult \<Rightarrow> jsnum" where
  "calculateFitness r =
    (let normalizedReturn = clamp01 (js_div (totalReturnPercent (summary r)) (Fin 100));
         normalizedWinRate = js_div (winRate (summary r)) (Fin 100);
         normalizedSharpe = clamp01 (js_div (sharpeRatio (summary r)) (Fin 3));
         normalizedDrawdown =
           Math_max (js_sub (Fin 1) (js_div (maxDrawdown (summary r)) (Fin 50))) (Fin 0);
         normalizedProfitFactor = clamp01 (js_div (profitFactor (summary r)) (Fin 3))
     in js_add (js_add (js_add (js_add
          (js_mul normalizedReturn (Fin (3 / 10)))
          (js_mul normalizedWinRate (Fin (25 / 100))))
          (js_mul normalizedSharpe (Fin (2 / 10))))
          (js_mul normalizedDrawdown (Fin (15 / 100))))
          (js_mul normalizedProfitFactor (Fin (1 / 10))))"

text \<open>
  \<open>Array.prototype.sort\<close> with a comparator. The language requires the sort to be
  stable, and for a consistent comparator the result is the list that a stable
  insertion sort computes: an element moves behind another only when the comparator is
  positive. A comparator result of \<open>NaN\<close> counts as 0.
\<close>

fun insertBy :: "('a \<Rightarrow> 'a \<Rightarrow> jsnum) \<Rightarrow> 'a \<Rightarrow> 'a list \<Rightarrow> 'a list" where
  "insertBy cmp x [] = [x]"
| "insertBy cmp x (y # ys) =
    (if js_gt (cmp x y) (Fin 0) then y # insertBy cmp x ys else x # y # ys)"

definition array_sort :: "('a \<Rightarrow> 'a \<Rightarrow> jsnum) \<Rightarrow> 'a list \<Rightarrow> 'a list" where
  "array_sort cmp xs = foldr (insertBy cmp) xs []"

text \<open>
  \<open>BacktestingEngine.optimizeStrategy\<close>. \<open>now k\<close> is the clock of the run for the
  \<open>k\<close>-th combination; a run that throws is logged and contributes no result.
\<close>

definition optimizationRun :: "StrategyManager \<Rightarrow> (string \<Rightarrow> HistoricalData list option)
    \<Rightarrow> (nat \<Rightarrow> nat \<Rightarrow> nat) \<Rightarrow> 'v BacktestConfig \<Rightarrow> nat \<times> (string \<times> 'v) list
    \<Rightarrow> 'v OptimizationResult list" where
  "optimizationRun mgr historicalData now cfg kp =
    (case runBacktest mgr historicalData (now (fst kp)) (cfg \<lparr> parameters := snd kp \<rparr>) of
       Inr res \<Rightarrow> [\<lparr> opt_parameters = snd kp, result = res, fitness = calculateFitness res \<rparr>]
     | Inl err \<Rightarrow> [])"

definition optimizeStrategy :: "StrategyManager \<Rightarrow> (string \<Rightarrow> HistoricalData list option)
    \<Rightarrow> (nat \<Rightarrow> nat \<Rightarrow> nat) \<Rightarrow> 'v BacktestConfig \<Rightarrow> (string \<times> 'v list) list
    \<Rightarrow> 'v OptimizationResult list" where
  "optimizeStrategy mgr historicalData now cfg parameterRanges =
    (let parameterCombinations = generateParameterCombinations parameterRanges;
         results = concat (map (optimizationRun mgr historicalData now cfg)
                     (zip [0..<length parameterCombinations] parameterCombinations))
     in array_sort (\<lambda>a b. js_sub (fitness b) (fitness a)) results)"

text \<open>
  Two results agree up to trade ids when they differ at most in the \<open>id\<close> fields of
  their trades; likewise two states of the simulation loop.
\<close>

definition forgetId :: "BacktestTrade \<Rightarrow> BacktestTrade" where
  "forgetId t = t \<lparr> trade_id := [] \<rparr>"

definition sameUpToIds :: "'v BacktestResult \<Rightarrow> 'v BacktestResult \<Rightarrow> bool" where
  "sameUpToIds r1 r2 =
    (summary r1 = summary r2 \<and> map forgetId (trades r1) = map forgetId (trades r2)
     \<and> equity_curve r1 = equity_curve r2 \<and> metrics r1 = metrics r2 \<and> config r1 = config r2)"

definition sameStateUpToIds :: "BacktestState \<Rightarrow> BacktestState \<Rightarrow> bool" where
  "sameStateUpToIds s1 s2 =
    (capital s1 = capital s2 \<and> maxCapital s1 = maxCapital s2
     \<and> runMaxDrawdown s1 = runMaxDrawdown s2 \<and> currentDrawdown s1 = currentDrawdown s2
     \<and> map forgetId (runTrades s1) = map forgetId (runTrades s2)
     \<and> equityCurve s1 = equityCurve s2)"

text \<open>Sample managers: strategies that answer a fixed action and confidence.\<close>

definition fixedStrategy :: "Action \<Rightarrow> real \<Rightarrow> Strategy" where
  "fixedStrategy a c marketData =
    Inr \<lparr> symbol = ''X'', action = a, strength = Fin c, confidence = Fin c,
          entryPrice = price (last marketData), stopLoss = None, takeProfit = None,
          reason = ''fixed'' \<rparr>"

definition mgr_agree :: StrategyManager where
  "mgr_agree =
    \<lparr> strategies = [(''technical'', fixedStrategy Buy 80), (''ml'', fixedStrategy Buy 60),
                     (''arbitrage'', fixedStrategy Sell 50)],
      activeStrategies = {''technical'', ''ml'', ''arbitrage''} \<rparr>"

definition mgr_split :: StrategyManager where
  "mgr_split =
    \<lparr> strategies = [(''technical'', fixedStrategy Buy 80), (''ml'', fixedStrategy Sell 60),
                     (''arbitrage'', fixedStrategy Hold 50)],
      activeStrategies = {''technical'', ''ml'', ''arbitrage''} \<rparr>"

text \<open>
  The manager as a backtest meets it when the technical and the arbitrage strategy both
  answer buy; the machine-learning strategy falls back to hold.
\<close>

definition mgr_backtest :: StrategyManager where
  "mgr_backtest =
    \<lparr> strategies = [(''technical'', fixedStrategy Buy 100), (''ml'', fixedStrategy Hold 50),
                     (''arbitrage'', fixedStrategy Buy 95)],
      activeStrategies = {''technical'', ''ml'', ''arbitrage''} \<rparr>"

text \<open>
  The same manager after \<open>deactivateStrategy\<close> for the machine-learning and the
  arbitrage strategy: only the technical strategy votes.
\<close>

definition mgr_technical :: StrategyManager where
  "mgr_technical = mgr_backtest \<lparr> activeStrategies := {''technical''} \<rparr>"

definition one_bar :: "MarketDatum list" where
  "one_bar = [\<lparr> timestamp = Fin 0, openPrice = Fin 1, high = Fin 1, low = Fin 1, close = Fin 1,
      volume = Fin 1, price = Fin 1 \<rparr>]"

text \<open>
  Sample inputs of the engine: sixty daily bars of one symbol (bar \<open>n\<close> at time \<open>n\<close>,
  closing at \<open>200 - n\<close>), a configuration whose date range ends at a given day, and two
  clocks. On windows of 21 to 49 of these falling bars the technical strategy answers
  buy: no change is a gain, so the RSI is 0 and below the oversold mark, and with fewer
  than 50 bars the long moving average falls back to 0, below the short one.
\<close>

definition sample_bar :: "nat \<Rightarrow> HistoricalData" where
  "sample_bar n =
    \<lparr> timestamp = Fin (real n), openPrice = Fin (201 - real n), high = Fin (202 - real n),
      low = Fin (199 - real n), close = Fin (200 - real n), volume = Fin 1000 \<rparr>"

definition sample_series :: "HistoricalData list" where
  "sample_series = map sample_bar [0..<60]"

definition sample_data :: "string \<Rightarrow> HistoricalData list option" where
  "sample_data s = (if s = ''AAPL'' then Some sample_series else None)"

definition sample_config :: "real \<Rightarrow> jsnum BacktestConfig" where
  "sample_config lastDay =
    \<lparr> config_symbol = ''AAPL'', strategy = ''consensus'', startDate = Fin 0,
      endDate = Fin lastDay, initialCapital = Fin 10000, parameters = [] \<rparr>"

definition clock1 :: "nat \<Rightarrow> nat" where
  "clock1 i = 1000"

definition clock2 :: "nat \<Rightarrow> nat" where
  "clock2 i = 2000"

text \<open>Two sample trades: a winning one and a losing one.\<close>

definition sample_trade :: BacktestTrade where
  "sample_trade =
    \<lparr> trade_id = ''AAPL-20-1000'', trade_symbol = ''AAPL'', trade_type = Buy, quantity = Fin 50,
      trade_entryPrice = Fin 100, exitPrice = Fin 110, entryTime = Fin 20, exitTime = Fin 21,
      profitLoss = Fin 495, profitLossPercent = Fin (99 / 10), fees = Fin 5,
      status = ''completed'', trade_strategy = ''consensus'',
      trade_reason = ''Consensus signal from 2 strategies'' \<rparr>"

definition losing_trade :: BacktestTrade where
  "losing_trade = sample_trade \<lparr> trade_id := ''AAPL-21-1000'', exitPrice := Fin (971 / 10),
     entryTime := Fin 21, exitTime := Fin 22, profitLoss := Fin (- 150),
     profitLossPercent := Fin (- 3) \<rparr>"

text \<open>Sample ranges of two parameters, and a clock for each run of an optimization.\<close>

definition sample_ranges :: "(string \<times> jsnum list) list" where
  "sample_ranges = [(''a'', [Fin 1, Fin 2]), (''b'', [Fin 10, Fin 20])]"

definition sample_clocks :: "nat \<Rightarrow> nat \<Rightarrow> nat" where
  "sample_clocks k i = 1000 + k"

section \<open>Facts about the arithmetic\<close>

lemma foldl_js_add_Fin: "foldl js_add (Fin a) (map Fin xs) = Fin (a + sum_list xs)"
  by (induction xs arbitrary: a) (simp_all add: add.assoc)

lemma reduce_sum_Fin: "reduce_sum (map Fin xs) = Fin (sum_list xs)"
  by (simp add: reduce_sum_def foldl_js_add_Fin)

section \<open>The relative strength index\<close>

lemma changesOf_Fin: "changesOf (map Fin rs) = map Fin (realChanges rs)"
proof -
  have "i \<in> set [1..<length rs] \<Longrightarrow> js_sub (map Fin rs ! i) (map Fin rs ! (i - 1)) = Fin (rs ! i - rs ! (i - 1))" for i
  proof -
    assume "i \<in> set [1..<length rs]"
    then have "i < length rs" "i - 1 < length rs" by auto
    then show ?thesis by (simp add: js_sub_def del: One_nat_def)
  qed
  then show ?thesis
    unfolding changesOf_def realChanges_def map_map length_map
    by (intro map_cong) (simp_all del: set_upt)
qed

lemma filter_gt_Fin: "filter (\<lambda>c. js_gt c (Fin 0)) (map Fin xs) = map Fin (filter (\<lambda>c. 0 < c) xs)"
  by (induction xs) (simp_all add: js_gt_def)

lemma filter_lt_Fin: "filter (\<lambda>c. js_lt c (Fin 0)) (map Fin xs) = map Fin (filter (\<lambda>c. c < 0) xs)"
  by (induction xs) simp_all

lemma map_abs_Fin: "map Math_abs (map Fin xs) = map Fin (map abs xs)"
  by simp

lemma sum_abs_neg_pos: "xs \<noteq> [] \<Longrightarrow> list_all (\<lambda>c. c < (0::real)) xs \<Longrightarrow> 0 < sum_list (map abs xs)"
proof -
  assume ne: "xs \<noteq> []" and neg: "list_all (\<lambda>c. c < (0::real)) xs"
  then obtain a ys where xs: "xs = a # ys" by (cases xs) auto
  have "0 \<le> sum_list (map abs ys)" by (rule sum_list_nonneg) auto
  moreover have "0 < \<bar>a\<bar>" using neg xs by simp
  ultimately show ?thesis using xs by simp
qed

lemma sum_pos_nonneg: "0 \<le> sum_list (filter (\<lambda>c. 0 < c) (xs::real list))"
  by (rule sum_list_nonneg) auto

lemma rsi_short50: "real (length data) < p + 1 \<Longrightarrow> calculateRSI data (Fin p) = Fin 50"
  by (simp add: calculateRSI_def)

lemma rsi_noloss: "\<not> js_lt (Fin (real (length data))) (js_add period (Fin 1)) \<Longrightarrow>
   filter (\<lambda>c. js_lt c (Fin 0)) (changesOf (closesOf data)) = [] \<Longrightarrow> calculateRSI data period = Fin 100"
  by (simp add: calculateRSI_def Let_def)

lemma realChanges_sorted: "sorted rs \<Longrightarrow> filter (\<lambda>c. c < 0) (realChanges rs) = []"
proof -
  assume s: "sorted rs"
  have "\<not> rs ! i - rs ! (i - 1) < 0" if "i \<in> set [1..<length rs]" for i
  proof -
    have "i - 1 \<le> i" "i < length rs" using that by auto
    then have "rs ! (i - 1) \<le> rs ! i" using s by (simp only: sorted_iff_nth_mono)
    then show ?thesis by simp
  qed
  then show ?thesis unfolding realChanges_def filter_empty_conv by auto
qed

lemma rsi_by_period:
  assumes c: "closesOf data = map Fin rs"
    and len: "\<not> js_lt (Fin (real (length data))) (js_add period (Fin 1))"
  shows "calculateRSI data period =
    (if (if filter (\<lambda>c. c < 0) (realChanges rs) = [] then Fin 0
         else js_div (Fin (sumLosses rs)) period) = Fin 0
     then Fin 100
     else js_sub (Fin 100) (js_div (Fin 100) (js_add (Fin 1)
            (js_div (if filter (\<lambda>c. 0 < c) (realChanges rs) = [] then Fin 0
                     else js_div (Fin (sumGains rs)) period)
                    (if filter (\<lambda>c. c < 0) (realChanges rs) = [] then Fin 0
                     else js_div (Fin (sumLosses rs)) period)))))"
proof -
  have lossval: "reduce_sum (map Math_abs (filter (\<lambda>c. js_lt c (Fin 0)) (changesOf (closesOf data)))) = Fin (sumLosses rs)"
    by (simp only: c changesOf_Fin filter_lt_Fin map_abs_Fin reduce_sum_Fin sumLosses_def)
  have gainval: "reduce_sum (filter (\<lambda>c. js_gt c (Fin 0)) (changesOf (closesOf data))) = Fin (sumGains rs)"
    by (simp only: c changesOf_Fin filter_gt_Fin reduce_sum_Fin sumGains_def)
  have ll: "length (map Math_abs (filter (\<lambda>c. js_lt c (Fin 0)) (changesOf (closesOf data))))
      = length (filter (\<lambda>c. c < 0) (realChanges rs))"
    by (simp only: c changesOf_Fin filter_lt_Fin length_map)
  have gl: "length (filter (\<lambda>c. js_gt c (Fin 0)) (changesOf (closesOf data)))
      = length (filter (\<lambda>c. 0 < c) (realChanges rs))"
    by (simp only: c changesOf_Fin filter_gt_Fin length_map)
  show ?thesis
    unfolding calculateRSI_def Let_def lossval gainval ll gl
    using len by (simp only: if_False length_greater_0_conv if_not_P if_P split: if_splits) auto
qed

lemma rsi_period_zero:
  assumes c: "closesOf data = map Fin rs"
    and neg: "filter (\<lambda>c. c < 0) (realChanges rs) \<noteq> []"
    and pos: "filter (\<lambda>c. 0 < c) (realChanges rs) \<noteq> []"
  shows "calculateRSI data (Fin 0) = NaN"
proof -
  have L: "0 < sumLosses rs"
    unfolding sumLosses_def using neg by (intro sum_abs_neg_pos) (auto simp: list_all_iff)
  have "0 < sum_list (filter (\<lambda>c. 0 < c) (realChanges rs))"
  proof -
    from pos obtain a ys where f: "filter (\<lambda>c. 0 < c) (realChanges rs) = a # ys"
      by (cases "filter (\<lambda>c. 0 < c) (realChanges rs)") auto
    then have "a \<in> set (filter (\<lambda>c. 0 < c) (realChanges rs))" "set ys \<subseteq> set (filter (\<lambda>c. 0 < c) (realChanges rs))"
      by auto
    then have "0 < a" "\<forall>y\<in>set ys. 0 \<le> y" by auto
    then have "0 < a + sum_list ys" by (intro add_pos_nonneg sum_list_nonneg) auto
    with f show ?thesis by simp
  qed
  then have G: "0 < sumGains rs" by (simp add: sumGains_def)
  have "realChanges rs \<noteq> []" using neg by auto
  then have "length rs \<noteq> 0" by (auto simp: realChanges_def)
  moreover have "length data = length rs" using arg_cong[OF c, of length] by (simp add: closesOf_def)
  ultimately have len: "\<not> js_lt (Fin (real (length data))) (js_add (Fin 0) (Fin 1))"
    by simp
  show ?thesis
    unfolding rsi_by_period[OF c len] using neg pos L G
    by (simp add: inf_of_sign_def js_sub_def)
qed

lemma rsi_general_nonzero:
  assumes c: "closesOf data = map Fin rs" and p: "p \<noteq> 0" and len: "p + 1 \<le> real (length data)"
    and neg: "filter (\<lambda>c. c < 0) (realChanges rs) \<noteq> []"
  shows "calculateRSI data (Fin p) = Fin (100 - 100 / (1 + (sumGains rs / p) / (sumLosses rs / p)))"
proof -
  have L: "0 < sumLosses rs"
    unfolding sumLosses_def using neg by (intro sum_abs_neg_pos) (auto simp: list_all_iff)
  have G: "0 \<le> sumGains rs" unfolding sumGains_def by (rule sum_pos_nonneg)
  have "(sumGains rs / p) / (sumLosses rs / p) = sumGains rs / sumLosses rs" using p by simp
  then have q: "0 \<le> (sumGains rs / p) / (sumLosses rs / p)" using L G by simp
  have g0: "filter (\<lambda>c. 0 < c) (realChanges rs) = [] \<Longrightarrow> sumGains rs = 0"
    by (simp add: sumGains_def)
  have l: "\<not> js_lt (Fin (real (length data))) (js_add (Fin p) (Fin 1))" using len by simp
  have nz: "sumLosses rs / p \<noteq> 0" using L p by simp
  have one: "1 + (sumGains rs / p) / (sumLosses rs / p) \<noteq> 0" using q by linarith
  show ?thesis
  proof (cases "filter (\<lambda>c. 0 < c) (realChanges rs) = []")
    case True
    with g0 have "sumGains rs = 0" by simp
    then show ?thesis
      unfolding rsi_by_period[OF c l] using neg p nz True by (simp add: js_sub_def)
  next
    case False
    then show ?thesis
      unfolding rsi_by_period[OF c l] using neg p nz one by (simp add: js_sub_def)
  qed
qed

lemma rising_closes: "closesOf rsi_rising = map Fin (map real [1..<21])"
  by (simp add: rsi_rising_def closesOf_def bar_of_close_def js_or_def)

lemma mixed_closes: "closesOf rsi_mixed = map Fin [1, 4, 2]"
  by (simp add: rsi_mixed_def closesOf_def bar_of_close_def js_or_def)

lemma mixed_changes: "realChanges [1, 4, 2] = [3, -2]"
  by (simp add: realChanges_def upt_rec)

lemma uneven_closes: "closesOf rsi_uneven = map Fin [1, 2, 4, 3]"
  by (simp add: rsi_uneven_def closesOf_def bar_of_close_def js_or_def)

lemma uneven_changes: "realChanges [1, 2, 4, 3] = [1, 2, -1]"
  by (simp add: realChanges_def upt_rec)


text \<open>
  Claim C7. \<open>calculateRSI\<close> returns 50 when the series has fewer than \<open>period + 1\<close>
  samples; past that check it returns 100 when no change is negative (the average loss
  is then zero), in particular for period 14 on every monotonically increasing series
  of 20 finite values. In the general case the summed gains and the summed losses are
  each divided by the period, not by the number of gains or losses: for finite closes
  and every period the result is computed from \<open>sumGains / period\<close> and
  \<open>sumLosses / period\<close> in JavaScript arithmetic; for a finite period other than 0 and at
  least one negative change this is \<open>100 - 100 / (1 + (sumGains / period) / (sumLosses /
  period))\<close>; and for the period 0, with a gain and a loss, both averages are infinite and
  the result is \<open>NaN\<close>.
\<close>

theorem calculateRSI_cases:
  "(real (length data) < p + 1 \<longrightarrow> calculateRSI data (Fin p) = Fin 50)
   \<and> (\<not> js_lt (Fin (real (length data))) (js_add period (Fin 1))
        \<and> filter (\<lambda>c. js_lt c (Fin 0)) (changesOf (closesOf data)) = []
      \<longrightarrow> calculateRSI data period = Fin 100)
   \<and> (length data = 20 \<and> closesOf data = map Fin rs \<and> sorted rs
      \<longrightarrow> calculateRSI data (Fin 14) = Fin 100)
   \<and> (closesOf data = map Fin rs \<and> p \<noteq> 0 \<and> p + 1 \<le> real (length data)
        \<and> filter (\<lambda>c. c < 0) (realChanges rs) \<noteq> []
      \<longrightarrow> calculateRSI data (Fin p) =
          Fin (100 - 100 / (1 + (sumGains rs / p) / (sumLosses rs / p))))
   \<and> (closesOf data = map Fin rs
        \<and> \<not> js_lt (Fin (real (length data))) (js_add period (Fin 1))
      \<longrightarrow> calculateRSI data period =
          (if (if filter (\<lambda>c. c < 0) (realChanges rs) = [] then Fin 0
               else js_div (Fin (sumLosses rs)) period) = Fin 0
           then Fin 100
           else js_sub (Fin 100) (js_div (Fin 100) (js_add (Fin 1)
                  (js_div (if filter (\<lambda>c. 0 < c) (realChanges rs) = [] then Fin 0
                           else js_div (Fin (sumGains rs)) period)
                          (if filter (\<lambda>c. c < 0) (realChanges rs) = [] then Fin 0
                           else js_div (Fin (sumLosses rs)) period))))))
   \<and> (closesOf data = map Fin rs
        \<and> filter (\<lambda>c. c < 0) (realChanges rs) \<noteq> []
        \<and> filter (\<lambda>c. 0 < c) (realChanges rs) \<noteq> []
      \<longrightarrow> calculateRSI data (Fin 0) = NaN)"
proof (intro conjI impI)
  assume "real (length data) < p + 1"
  then show "calculateRSI data (Fin p) = Fin 50" by (rule rsi_short50)
next
  assume "\<not> js_lt (Fin (real (length data))) (js_add period (Fin 1))
        \<and> filter (\<lambda>c. js_lt c (Fin 0)) (changesOf (closesOf data)) = []"
  then show "calculateRSI data period = Fin 100" by (simp add: rsi_noloss)
next
  assume a: "length data = 20 \<and> closesOf data = map Fin rs \<and> sorted rs"
  then have "filter (\<lambda>c. js_lt c (Fin 0)) (changesOf (closesOf data)) = []"
    by (simp add: changesOf_Fin filter_lt_Fin realChanges_sorted)
  moreover have "\<not> js_lt (Fin (real (length data))) (js_add (Fin 14) (Fin 1))"
    using a by simp
  ultimately show "calculateRSI data (Fin 14) = Fin 100" by (rule rsi_noloss[rotated])
next
  assume "closesOf data = map Fin rs \<and> p \<noteq> 0 \<and> p + 1 \<le> real (length data)
        \<and> filter (\<lambda>c. c < 0) (realChanges rs) \<noteq> []"
  then show "calculateRSI data (Fin p) =
          Fin (100 - 100 / (1 + (sumGains rs / p) / (sumLosses rs / p)))"
    by (simp add: rsi_general_nonzero)
next
  assume a: "closesOf data = map Fin rs
        \<and> \<not> js_lt (Fin (real (length data))) (js_add period (Fin 1))"
  then have c: "closesOf data = map Fin rs"
    and l: "\<not> js_lt (Fin (real (length data))) (js_add period (Fin 1))" by simp_all
  show "calculateRSI data period =
          (if (if filter (\<lambda>c. c < 0) (realChanges rs) = [] then Fin 0
               else js_div (Fin (sumLosses rs)) period) = Fin 0
           then Fin 100
           else js_sub (Fin 100) (js_div (Fin 100) (js_add (Fin 1)
                  (js_div (if filter (\<lambda>c. 0 < c) (realChanges rs) = [] then Fin 0
                           else js_div (Fin (sumGains rs)) period)
                          (if filter (\<lambda>c. c < 0) (realChanges rs) = [] then Fin 0
                           else js_div (Fin (sumLosses rs)) period)))))"
    by (rule rsi_by_period[OF c l])
next
  assume "closesOf data = map Fin rs
        \<and> filter (\<lambda>c. c < 0) (realChanges rs) \<noteq> []
        \<and> filter (\<lambda>c. 0 < c) (realChanges rs) \<noteq> []"
  then show "calculateRSI data (Fin 0) = NaN" by (simp add: rsi_period_zero)
qed


theorem calculateRSI_cases_witness:
  "calculateRSI rsi_short (Fin 14) = Fin 50
   \<and> calculateRSI rsi_rising (Fin 14) = Fin 100
   \<and> calculateRSI rsi_rising (Fin 3) = Fin 100
   \<and> calculateRSI rsi_mixed (Fin 2) = Fin 60
   \<and> calculateRSI rsi_uneven (Fin 2) = Fin 75
   \<and> calculateRSI rsi_uneven (Fin (- 2)) = Fin 75
   \<and> calculateRSI rsi_uneven NegInf = Fin 100
   \<and> calculateRSI rsi_uneven (Fin 0) = NaN"
proof (intro conjI)
  have "real (length rsi_short) < 14 + 1" by (simp add: rsi_short_def)
  with calculateRSI_cases[of rsi_short 14] show "calculateRSI rsi_short (Fin 14) = Fin 50"
    by blast
next
  have "length rsi_rising = 20" by (simp add: rsi_rising_def)
  moreover have "sorted (map real [1..<21])" by (simp add: sorted_map)
  ultimately show "calculateRSI rsi_rising (Fin 14) = Fin 100"
    using calculateRSI_cases[of rsi_rising _ _ "map real [1..<21]"] rising_closes by blast
next
  have "\<not> js_lt (Fin (real (length rsi_rising))) (js_add (Fin 3) (Fin 1))"
    by (simp add: rsi_rising_def)
  moreover have "filter (\<lambda>c. js_lt c (Fin 0)) (changesOf (closesOf rsi_rising)) = []"
    by (simp only: rising_closes changesOf_Fin filter_lt_Fin)
       (simp add: realChanges_sorted sorted_map)
  ultimately show "calculateRSI rsi_rising (Fin 3) = Fin 100"
    using calculateRSI_cases[of rsi_rising _ "Fin 3"] by blast
next
  have "filter (\<lambda>c. c < 0) (realChanges [1, 4, 2]) \<noteq> []" by (simp add: mixed_changes)
  moreover have "(2::real) + 1 \<le> real (length rsi_mixed)" by (simp add: rsi_mixed_def)
  ultimately have "calculateRSI rsi_mixed (Fin 2) =
      Fin (100 - 100 / (1 + (sumGains [1, 4, 2] / 2) / (sumLosses [1, 4, 2] / 2)))"
    using calculateRSI_cases[of rsi_mixed 2 _ "[1, 4, 2]"] mixed_closes by simp
  then show "calculateRSI rsi_mixed (Fin 2) = Fin 60"
    by (simp add: sumGains_def sumLosses_def mixed_changes)
next
  have "filter (\<lambda>c. c < 0) (realChanges [1, 2, 4, 3]) \<noteq> []" by (simp add: uneven_changes)
  moreover have "(2::real) + 1 \<le> real (length rsi_uneven)" by (simp add: rsi_uneven_def)
  ultimately have "calculateRSI rsi_uneven (Fin 2) =
      Fin (100 - 100 / (1 + (sumGains [1, 2, 4, 3] / 2) / (sumLosses [1, 2, 4, 3] / 2)))"
    using calculateRSI_cases[of rsi_uneven 2 _ "[1, 2, 4, 3]"] uneven_closes by simp
  then show "calculateRSI rsi_uneven (Fin 2) = Fin 75"
    by (simp add: sumGains_def sumLosses_def uneven_changes)
next
  have "filter (\<lambda>c. c < 0) (realChanges [1, 2, 4, 3]) \<noteq> []" by (simp add: uneven_changes)
  moreover have "(- 2::real) + 1 \<le> real (length rsi_uneven)" by (simp add: rsi_uneven_def)
  ultimately have "calculateRSI rsi_uneven (Fin (- 2)) =
      Fin (100 - 100 / (1 + (sumGains [1, 2, 4, 3] / (- 2)) / (sumLosses [1, 2, 4, 3] / (- 2))))"
    using calculateRSI_cases[of rsi_uneven "- 2" _ "[1, 2, 4, 3]"] uneven_closes by simp
  then show "calculateRSI rsi_uneven (Fin (- 2)) = Fin 75"
    by (simp add: sumGains_def sumLosses_def uneven_changes)
next
  have l: "\<not> js_lt (Fin (real (length rsi_uneven))) (js_add NegInf (Fin 1))"
    by (simp add: rsi_uneven_def)
  from calculateRSI_cases[of rsi_uneven _ NegInf "[1, 2, 4, 3]", THEN conjunct2, THEN conjunct2,
      THEN conjunct2, THEN conjunct2, THEN conjunct1] uneven_closes l
  have "calculateRSI rsi_uneven NegInf =
          (if (if filter (\<lambda>c. c < 0) (realChanges [1, 2, 4, 3]) = [] then Fin 0
               else js_div (Fin (sumLosses [1, 2, 4, 3])) NegInf) = Fin 0
           then Fin 100
           else js_sub (Fin 100) (js_div (Fin 100) (js_add (Fin 1)
                  (js_div (if filter (\<lambda>c. 0 < c) (realChanges [1, 2, 4, 3]) = [] then Fin 0
                           else js_div (Fin (sumGains [1, 2, 4, 3])) NegInf)
                          (if filter (\<lambda>c. c < 0) (realChanges [1, 2, 4, 3]) = [] then Fin 0
                           else js_div (Fin (sumLosses [1, 2, 4, 3])) NegInf)))))"
    by blast
  then show "calculateRSI rsi_uneven NegInf = Fin 100"
    by (simp add: uneven_changes)
next
  have "filter (\<lambda>c. c < 0) (realChanges [1, 2, 4, 3]) \<noteq> []"
    "filter (\<lambda>c. 0 < c) (realChanges [1, 2, 4, 3]) \<noteq> []"
    by (simp_all add: uneven_changes)
  with calculateRSI_cases[of rsi_uneven _ _ "[1, 2, 4, 3]"] uneven_closes
  show "calculateRSI rsi_uneven (Fin 0) = NaN" by blast
qed

section \<open>The arbitrage strategy's backtest\<close>

text \<open>
  Claim C9. \<open>ArbitrageStrategy.backtest\<close> is a constant function: whatever historical
  series it is given, the empty one included, it returns the same fixed figures
  (50 trades, all won, win rate 100, total return 15, maximal drawdown 0.1, Sharpe
  ratio 25, profit factor \<open>Infinity\<close>, average win 300, average loss 0).
\<close>

theorem ArbitrageStrategy_backtest_constant:
  "ArbitrageStrategy_backtest historicalData =
     \<lparr> totalTrades = Fin 50, winningTrades = Fin 50, losingTrades = Fin 0,
       winRate = Fin 100, totalReturn = Fin 15, maxDrawdown = Fin (1 / 10),
       sharpeRatio = Fin 25, profitFactor = PosInf, averageWin = Fin 300,
       averageLoss = Fin 0 \<rparr>
   \<and> ArbitrageStrategy_backtest historicalData = ArbitrageStrategy_backtest []"
  by (simp add: ArbitrageStrategy_backtest_def)

section \<open>Consensus of the strategy manager\<close>

lemma foldl_votes:
  "foldl (\<lambda>votes signal. votes(action signal := votes (action signal) + 1)) v signals a
     = v a + length (filter (\<lambda>s. action s = a) signals)"
  by (induction signals arbitrary: v) auto

lemma countVotes_filter: "countVotes signals a = length (filter (\<lambda>s. action s = a) signals)"
  unfolding countVotes_def foldl_votes by simp

lemma foldl_confidences:
  "foldl (\<lambda>confidences signal.
             confidences(action signal := confidences (action signal) @ [confidence signal]))
      c signals a
     = c a @ map confidence (filter (\<lambda>s. action s = a) signals)"
  by (induction signals arbitrary: c) auto

lemma collectConfidences_filter:
  "collectConfidences signals a = map confidence (filter (\<lambda>s. action s = a) signals)"
  unfolding collectConfidences_def foldl_confidences by simp

lemma winningActionOf_max: "votes a \<le> votes (winningActionOf votes)"
  by (cases a) (auto simp: winningActionOf_def)

lemma length_by_action:
  "length signals = countVotes signals Buy + countVotes signals Sell + countVotes signals Hold"
  unfolding countVotes_filter
proof (induction signals)
  case Nil
  show ?case by simp
next
  case (Cons s signals)
  then show ?case by (cases "action s") simp_all
qed

lemma consensusOf_None:
  "\<not> real (countVotes signals (winningActionOf (countVotes signals))) > real (length signals) / 2
   \<Longrightarrow> consensusOf symb marketData signals = Inr None"
  by (simp add: consensusOf_def Let_def)

lemma consensusSignalOf_action:
  "action (consensusSignalOf symb marketData signals) = winningActionOf (countVotes signals)"
  by (simp add: consensusSignalOf_def Let_def)

lemma consensusSignalOf_confidence:
  "confidence (consensusSignalOf symb marketData signals) =
    (if length (collectConfidences signals (winningActionOf (countVotes signals))) > 0
     then js_div (reduce_sum (collectConfidences signals (winningActionOf (countVotes signals))))
            (Fin (real (length (collectConfidences signals (winningActionOf (countVotes signals))))))
     else Fin 0)"
  by (simp add: consensusSignalOf_def Let_def)

lemma consensusOf_Some_iff:
  "consensusOf symb marketData signals = Inr (Some s) \<longleftrightarrow>
     real (countVotes signals (winningActionOf (countVotes signals))) > real (length signals) / 2
     \<and> signals \<noteq> [] \<and> marketData \<noteq> [] \<and> s = consensusSignalOf symb marketData signals"
  unfolding consensusOf_def Let_def
  by (cases marketData; cases "signals = []"; simp; blast)

lemma consensusOf_Some:
  assumes "consensusOf symb marketData signals = Inr (Some s)"
  shows "real (countVotes signals (winningActionOf (countVotes signals))) > real (length signals) / 2"
    and "action s = winningActionOf (countVotes signals)"
    and "confidence s = js_div (reduce_sum (collectConfidences signals (action s)))
                          (Fin (real (length (collectConfidences signals (action s)))))"
    and "marketData \<noteq> []" and "signals \<noteq> []"
proof -
  from assms have m: "real (countVotes signals (winningActionOf (countVotes signals))) > real (length signals) / 2"
    and ne: "signals \<noteq> []" and d: "marketData \<noteq> []"
    and s: "s = consensusSignalOf symb marketData signals"
    by (simp_all add: consensusOf_Some_iff)
  show "real (countVotes signals (winningActionOf (countVotes signals))) > real (length signals) / 2"
    by (rule m)
  show "signals \<noteq> []" by (rule ne)
  show "marketData \<noteq> []" by (rule d)
  show a: "action s = winningActionOf (countVotes signals)"
    by (simp add: s consensusSignalOf_action)
  have pos: "0 < countVotes signals (winningActionOf (countVotes signals))"
    using m by (cases "countVotes signals (winningActionOf (countVotes signals))") auto
  then have "0 < length (collectConfidences signals (winningActionOf (countVotes signals)))"
    by (simp add: collectConfidences_filter countVotes_filter)
  then show "confidence s = js_div (reduce_sum (collectConfidences signals (action s)))
                          (Fin (real (length (collectConfidences signals (action s)))))"
    unfolding a by (simp add: s consensusSignalOf_confidence)
qed

lemma consensusOf_returns:
  assumes "real (countVotes signals (winningActionOf (countVotes signals))) > real (length signals) / 2"
    and "marketData \<noteq> []"
  shows "\<exists>s. consensusOf symb marketData signals = Inr (Some s)"
proof -
  from assms(1) have "signals \<noteq> []" by (auto simp: countVotes_def)
  with assms show ?thesis by (simp add: consensusOf_Some_iff)
qed

lemma mean_Fin:
  "rs \<noteq> [] \<Longrightarrow> js_div (reduce_sum (map Fin rs)) (Fin (real (length (map Fin rs)))) = Fin (arithmeticMean rs)"
  by (simp add: reduce_sum_Fin arithmeticMean_def)

lemma agree_signals_eval:
  "map (\<lambda>s. (action s, confidence s)) (analyzeSymbol mgr_agree ''X'' one_bar)
     = [(Buy, Fin 80), (Buy, Fin 60), (Sell, Fin 50)]"
  by (simp add: analyzeSymbol_def mgr_agree_def fixedStrategy_def)

lemma split_signals_eval:
  "map action (analyzeSymbol mgr_split ''X'' one_bar) = [Buy, Sell, Hold]"
  by (simp add: analyzeSymbol_def mgr_split_def fixedStrategy_def)

lemma filter_action_map:
  "map f (filter (\<lambda>x. action x = a) xs) = map snd (filter (\<lambda>p. fst p = a) (map (\<lambda>s. (action s, f s)) xs))"
  by (induction xs) auto

text \<open>
  Claim C1. For a non-empty list of signals of the active strategies,
  \<open>getConsensusSignal\<close> returns a signal only if the votes for its action are a strict
  majority (more than half of all signals); that action has the most votes, and the
  confidence of the signal is the sum of the confidences of exactly the signals that
  voted for it, divided by their number (their arithmetic mean when they are finite).
  When no action has a strict majority the result is \<open>null\<close>, in particular for one buy,
  one sell and one hold; and with a strict majority and at least one bar a signal is
  returned.
\<close>

theorem getConsensusSignal_strict_majority:
  assumes sig: "analyzeSymbol m symb marketData = signals" and ne: "signals \<noteq> []"
  shows
   "(\<forall>s. getConsensusSignal m symb marketData = Inr (Some s) \<longrightarrow>
        real (length (filter (\<lambda>x. action x = action s) signals)) > real (length signals) / 2
      \<and> (\<forall>a. length (filter (\<lambda>x. action x = a) signals)
               \<le> length (filter (\<lambda>x. action x = action s) signals))
      \<and> confidence s =
          js_div (reduce_sum (map confidence (filter (\<lambda>x. action x = action s) signals)))
            (Fin (real (length (filter (\<lambda>x. action x = action s) signals))))
      \<and> (\<forall>rs. map confidence (filter (\<lambda>x. action x = action s) signals) = map Fin rs
            \<longrightarrow> confidence s = Fin (arithmeticMean rs)))
    \<and> ((\<forall>a. \<not> real (length (filter (\<lambda>x. action x = a) signals)) > real (length signals) / 2)
        \<longrightarrow> getConsensusSignal m symb marketData = Inr None)
    \<and> (length (filter (\<lambda>x. action x = Buy) signals) = 1
        \<and> length (filter (\<lambda>x. action x = Sell) signals) = 1
        \<and> length (filter (\<lambda>x. action x = Hold) signals) = 1
        \<longrightarrow> getConsensusSignal m symb marketData = Inr None)
    \<and> ((\<exists>a. real (length (filter (\<lambda>x. action x = a) signals)) > real (length signals) / 2)
        \<and> marketData \<noteq> []
        \<longrightarrow> (\<exists>s. getConsensusSignal m symb marketData = Inr (Some s)))"
proof (intro conjI allI impI)
  fix s
  assume r: "getConsensusSignal m symb marketData = Inr (Some s)"
  then have c: "consensusOf symb marketData signals = Inr (Some s)"
    by (simp add: getConsensusSignal_def sig)
  note facts = consensusOf_Some[OF c]
  show maj: "real (length (filter (\<lambda>x. action x = action s) signals)) > real (length signals) / 2"
    using facts(1,2) by (simp add: countVotes_filter)
  show "length (filter (\<lambda>x. action x = a) signals)
          \<le> length (filter (\<lambda>x. action x = action s) signals)" for a
    using winningActionOf_max[of "countVotes signals" a] facts(2)
    by (simp add: countVotes_filter)
  show conf: "confidence s =
          js_div (reduce_sum (map confidence (filter (\<lambda>x. action x = action s) signals)))
            (Fin (real (length (filter (\<lambda>x. action x = action s) signals))))"
    using facts(3) by (simp add: collectConfidences_filter)
  show "confidence s = Fin (arithmeticMean rs)"
    if "map confidence (filter (\<lambda>x. action x = action s) signals) = map Fin rs" for rs
  proof -
    have len: "length (filter (\<lambda>x. action x = action s) signals) = length rs"
      using that by (metis length_map)
    with maj have "rs \<noteq> []" by auto
    then show ?thesis using conf that len mean_Fin[of rs] by simp
  qed
next
  assume "\<forall>a. \<not> real (length (filter (\<lambda>x. action x = a) signals)) > real (length signals) / 2"
  then have "\<not> real (countVotes signals (winningActionOf (countVotes signals))) > real (length signals) / 2"
    by (simp add: countVotes_filter)
  then show "getConsensusSignal m symb marketData = Inr None"
    by (simp add: getConsensusSignal_def sig consensusOf_None)
next
  assume one: "length (filter (\<lambda>x. action x = Buy) signals) = 1
        \<and> length (filter (\<lambda>x. action x = Sell) signals) = 1
        \<and> length (filter (\<lambda>x. action x = Hold) signals) = 1"
  then have each: "countVotes signals a = 1" for a
    by (cases a) (simp_all add: countVotes_filter)
  have "length signals = 3"
    using length_by_action[of signals] by (simp add: each)
  then have "\<not> real (countVotes signals (winningActionOf (countVotes signals))) > real (length signals) / 2"
    by (simp add: each)
  then show "getConsensusSignal m symb marketData = Inr None"
    by (simp add: getConsensusSignal_def sig consensusOf_None)
next
  assume "(\<exists>a. real (length (filter (\<lambda>x. action x = a) signals)) > real (length signals) / 2)
        \<and> marketData \<noteq> []"
  then obtain a where a: "real (countVotes signals a) > real (length signals) / 2"
    and d: "marketData \<noteq> []"
    by (auto simp: countVotes_filter)
  have "real (countVotes signals a) \<le> real (countVotes signals (winningActionOf (countVotes signals)))"
    using winningActionOf_max[of "countVotes signals" a] by simp
  with a have "real (countVotes signals (winningActionOf (countVotes signals))) > real (length signals) / 2"
    by linarith
  from consensusOf_returns[OF this d]
  show "\<exists>s. getConsensusSignal m symb marketData = Inr (Some s)"
    by (simp add: getConsensusSignal_def sig)
qed

theorem getConsensusSignal_strict_majority_witness:
  "(\<exists>s. getConsensusSignal mgr_agree ''X'' one_bar = Inr (Some s)
        \<and> action s = Buy \<and> confidence s = Fin 70)
   \<and> getConsensusSignal mgr_split ''X'' one_bar = Inr None"
proof
  let ?sigs = "analyzeSymbol mgr_agree ''X'' one_bar"
  have ne: "?sigs \<noteq> []" using agree_signals_eval by auto
  note T = getConsensusSignal_strict_majority[OF refl ne]
  note T1 = T[THEN conjunct1, rule_format]
  note T4 = T[THEN conjunct2, THEN conjunct2, THEN conjunct2, rule_format]
  have cnt: "length (filter (\<lambda>x. action x = a) ?sigs)
      = length (filter (\<lambda>p. fst p = a) [(Buy, Fin 80), (Buy, Fin 60), (Sell, Fin 50)])" for a
    using arg_cong[OF filter_action_map[of confidence a ?sigs], of length]
    by (simp only: agree_signals_eval length_map)
  have len: "length ?sigs = 3"
    using arg_cong[OF agree_signals_eval, of length] by simp
  have "real (length (filter (\<lambda>x. action x = Buy) ?sigs)) > real (length ?sigs) / 2"
    by (simp add: cnt len)
  moreover have "one_bar \<noteq> []" by (simp add: one_bar_def)
  ultimately have "\<exists>s. getConsensusSignal mgr_agree ''X'' one_bar = Inr (Some s)"
    by (intro T4) blast
  then obtain s where s: "getConsensusSignal mgr_agree ''X'' one_bar = Inr (Some s)" ..
  have maj: "real (length (filter (\<lambda>x. action x = action s) ?sigs)) > real (length ?sigs) / 2"
    using T1[OF s] by (rule conjunct1)
  have act: "action s = Buy"
    using maj by (cases "action s") (simp_all add: cnt len)
  have "map confidence (filter (\<lambda>x. action x = action s) ?sigs) = map Fin [80, 60]"
    by (simp add: act filter_action_map[of confidence Buy ?sigs] agree_signals_eval)
  then have "confidence s = Fin (arithmeticMean [80, 60])"
    using T1[OF s, THEN conjunct2, THEN conjunct2, THEN conjunct2, rule_format] by blast
  then have "confidence s = Fin 70" by (simp add: arithmeticMean_def)
  with s act show "\<exists>s. getConsensusSignal mgr_agree ''X'' one_bar = Inr (Some s)
        \<and> action s = Buy \<and> confidence s = Fin 70" by blast
next
  let ?sigs = "analyzeSymbol mgr_split ''X'' one_bar"
  have ne: "?sigs \<noteq> []" using split_signals_eval by auto
  note T3 = getConsensusSignal_strict_majority[OF refl ne, THEN conjunct2, THEN conjunct2,
      THEN conjunct1, rule_format]
  have cnt: "length (filter (\<lambda>x. action x = a) ?sigs)
      = length (filter (\<lambda>p. p = a) [Buy, Sell, Hold])" for a
  proof -
    have "map action (filter (\<lambda>x. action x = a) ?sigs) = filter (\<lambda>p. p = a) (map action ?sigs)"
      by (simp add: filter_map comp_def)
    from arg_cong[OF this, of length] show ?thesis
      by (simp only: split_signals_eval length_map)
  qed
  show "getConsensusSignal mgr_split ''X'' one_bar = Inr None"
    by (rule T3) (simp add: cnt)
qed

section \<open>The simulation loop\<close>

lemma getConsensusSignal_total:
  "marketData \<noteq> [] \<Longrightarrow> \<exists>r. getConsensusSignal m symb marketData = Inr r"
  by (cases marketData) (simp_all add: getConsensusSignal_def consensusOf_def Let_def)

lemma equityCurve_executeTrade:
  "equityCurve (executeTrade now cfg fd i c st) = equityCurve st"
  by (simp add: executeTrade_def Let_def)

lemma equityCurve_processBar:
  assumes "fd \<noteq> []"
  shows "map point_timestamp (equityCurve (processBar mgr now cfg fd st i))
           = map point_timestamp (equityCurve st) @ [timestamp (fd ! i)]"
proof -
  have "map asMarketDatum (take (i + 1) fd) \<noteq> []" using assms by simp
  from getConsensusSignal_total[OF this]
  obtain r where r: "getConsensusSignal mgr (config_symbol cfg) (map asMarketDatum (take (i + 1) fd)) = Inr r"
    by blast
  show ?thesis
    unfolding processBar_def Let_def r
    by (cases r) (simp_all add: equityCurve_executeTrade)
qed

lemma equityCurve_foldl:
  assumes "fd \<noteq> []"
  shows "map point_timestamp (equityCurve (foldl (processBar mgr now cfg fd) st is))
           = map point_timestamp (equityCurve st) @ map (\<lambda>i. timestamp (fd ! i)) is"
  by (induction "is" arbitrary: st) (simp_all add: equityCurve_processBar[OF assms])

lemma equityCurve_simulate:
  assumes "fd \<noteq> []"
  shows "map point_timestamp (equityCurve (simulate mgr now cfg fd))
           = map (\<lambda>i. timestamp (fd ! i)) [20..<length fd - 1]"
  by (simp add: simulate_def equityCurve_foldl[OF assms] initialState_def)

lemma runBacktest_Inr:
  assumes "runBacktest mgr historicalData now cfg = Inr r"
  obtains series where "historicalData (config_symbol cfg) = Some series"
    and "50 \<le> length (filterByDate cfg series)"
    and "trades r = runTrades (simulate mgr now cfg (filterByDate cfg series))"
    and "equity_curve r = equityCurve (simulate mgr now cfg (filterByDate cfg series))"
    and "summary r = calculateSummary (trades r) (initialCapital cfg)
            (capital (simulate mgr now cfg (filterByDate cfg series)))
            (runMaxDrawdown (simulate mgr now cfg (filterByDate cfg series)))"
    and "metrics r = calculateAdvancedMetrics (trades r) (summary r)"
    and "config r = cfg"
  using assms
  by (auto simp: runBacktest_def Let_def split: option.splits if_splits)

lemma runBacktest_succeeds:
  assumes "historicalData (config_symbol cfg) = Some series"
    and "50 \<le> length (filterByDate cfg series)"
  shows "\<exists>r. runBacktest mgr historicalData now cfg = Inr r"
  using assms by (simp add: runBacktest_def Let_def)

lemma runBacktest_insufficient:
  assumes "historicalData (config_symbol cfg) = Some series"
  shows "runBacktest mgr historicalData now cfg
           = Inl (Error ''Insufficient historical data for backtesting'')
         \<longleftrightarrow> length (filterByDate cfg series) < 50"
  using assms by (simp add: runBacktest_def Let_def)

lemma equity_curve_run:
  assumes "runBacktest mgr historicalData now cfg = Inr r"
    and "historicalData (config_symbol cfg) = Some series"
  shows "map point_timestamp (equity_curve r)
           = map (\<lambda>i. timestamp (filterByDate cfg series ! i)) [20..<length (filterByDate cfg series) - 1]"
proof -
  from assms(1) obtain series' where s: "historicalData (config_symbol cfg) = Some series'"
    and l: "50 \<le> length (filterByDate cfg series')"
    and e: "equity_curve r = equityCurve (simulate mgr now cfg (filterByDate cfg series'))"
    by (rule runBacktest_Inr)
  from s assms(2) have [simp]: "series' = series" by simp
  from l have "filterByDate cfg series \<noteq> []" by auto
  then show ?thesis by (simp add: e equityCurve_simulate)
qed

lemma filter_sample:
  "filterByDate (sample_config (real k)) (map sample_bar [0..<n]) = map sample_bar [0..<min n (Suc k)]"
proof (induction n)
  case 0
  show ?case by (simp add: filterByDate_def)
next
  case (Suc n)
  show ?case
  proof (cases "n \<le> k")
    case True
    then have "min (Suc n) (Suc k) = Suc n" "min n (Suc k) = n" by auto
    with Suc True show ?thesis
      by (simp add: filterByDate_def sample_config_def sample_bar_def js_ge_def)
  next
    case False
    then have "min (Suc n) (Suc k) = Suc k" "min n (Suc k) = Suc k" by auto
    with Suc False show ?thesis
      by (simp add: filterByDate_def sample_config_def sample_bar_def js_ge_def)
  qed
qed

lemma length_filter_sample:
  "k < 60 \<Longrightarrow> length (filterByDate (sample_config (real k)) sample_series) = Suc k"
  by (simp add: sample_series_def filter_sample)


lemma sample_run_length:
  assumes "runBacktest mgr sample_data now (sample_config 49) = Inr r"
  shows "length (equity_curve r) = 29"
proof -
  have d: "sample_data (config_symbol (sample_config 49)) = Some sample_series"
    by (simp add: sample_data_def sample_config_def)
  from arg_cong[OF equity_curve_run[of mgr sample_data now "sample_config 49" r sample_series, OF assms d], of length] show ?thesis
    using length_filter_sample[of 49] by simp
qed

lemma sample_run_succeeds:
  "\<not> isl (runBacktest mgr sample_data now (sample_config 49))"
proof -
  have d: "sample_data (config_symbol (sample_config 49)) = Some sample_series"
    by (simp add: sample_data_def sample_config_def)
  have "50 \<le> length (filterByDate (sample_config 49) sample_series)"
    using length_filter_sample[of 49] by simp
  from runBacktest_succeeds[of sample_data "sample_config 49" sample_series mgr now, OF d this] obtain r where "runBacktest mgr sample_data now (sample_config 49) = Inr r"
    by blast
  then show ?thesis by simp
qed

text \<open>
  Claim C2. When the symbol of the configuration has a historical series,
  \<open>runBacktest\<close> fails with the error "Insufficient historical data for backtesting"
  exactly when fewer than 50 bars lie in the date range (a range of 10 bars raises
  it); with at least 50 bars in the range the run returns a result.
\<close>

theorem runBacktest_insufficient_data:
  assumes "historicalData (config_symbol cfg) = Some series"
  shows "(runBacktest mgr historicalData now cfg
            = Inl (Error ''Insufficient historical data for backtesting'')
          \<longleftrightarrow> length (filterByDate cfg series) < 50)
       \<and> (50 \<le> length (filterByDate cfg series)
          \<longrightarrow> (\<exists>r. runBacktest mgr historicalData now cfg = Inr r))"
  using runBacktest_insufficient[of historicalData cfg series mgr now] runBacktest_succeeds[of historicalData cfg series mgr now] assms by blast

theorem runBacktest_insufficient_data_witness:
  "runBacktest mgr_split sample_data clock1 (sample_config 9)
     = Inl (Error ''Insufficient historical data for backtesting'')
   \<and> (\<exists>r. runBacktest mgr_split sample_data clock1 (sample_config 49) = Inr r)"
proof
  have d: "sample_data (config_symbol (sample_config 9)) = Some sample_series"
    by (simp add: sample_data_def sample_config_def)
  have "length (filterByDate (sample_config 9) sample_series) < 50"
    using length_filter_sample[of 9] by simp
  with runBacktest_insufficient_data[of sample_data "sample_config 9" sample_series mgr_split clock1] d
  show "runBacktest mgr_split sample_data clock1 (sample_config 9)
     = Inl (Error ''Insufficient historical data for backtesting'')" by blast
next
  have d: "sample_data (config_symbol (sample_config 49)) = Some sample_series"
    by (simp add: sample_data_def sample_config_def)
  have "50 \<le> length (filterByDate (sample_config 49) sample_series)"
    using length_filter_sample[of 49] by simp
  with runBacktest_insufficient_data[of sample_data "sample_config 49" sample_series mgr_split clock1] d
  show "\<exists>r. runBacktest mgr_split sample_data clock1 (sample_config 49) = Inr r" by blast
qed

text \<open>
  Claim C3, as amended. A successful \<open>runBacktest\<close> appends exactly one equity point
  per iterated bar, whether or not the bar traded: the points carry, in order, the
  timestamps of the bars 20 to \<open>n - 2\<close> of the \<open>n\<close> filtered bars. The last bar is only
  the exit bar of its predecessor and is never iterated, so the equity curve has
  \<open>n - 1 - 20\<close> points: the number of filtered bars, less one, less the warm-up window.
\<close>

theorem equity_curve_length:
  assumes "runBacktest mgr historicalData now cfg = Inr r"
    and "historicalData (config_symbol cfg) = Some series"
  shows "map point_timestamp (equity_curve r)
           = map (\<lambda>i. timestamp (filterByDate cfg series ! i))
               [20..<length (filterByDate cfg series) - 1]
       \<and> length (equity_curve r) = length (filterByDate cfg series) - 1 - 20"
proof -
  note e = equity_curve_run[of mgr historicalData now cfg r series, OF assms]
  from arg_cong[OF e, of length] have "length (equity_curve r) = length (filterByDate cfg series) - 1 - 20"
    by simp
  with e show ?thesis by simp
qed

theorem equity_curve_length_witness:
  "\<not> isl (runBacktest mgr_split sample_data clock1 (sample_config 49))
   \<and> length (equity_curve (projr (runBacktest mgr_split sample_data clock1 (sample_config 49)))) = 29"
proof
  show s: "\<not> isl (runBacktest mgr_split sample_data clock1 (sample_config 49))"
    by (rule sample_run_succeeds)
  then have r: "runBacktest mgr_split sample_data clock1 (sample_config 49)
      = Inr (projr (runBacktest mgr_split sample_data clock1 (sample_config 49)))"
    by (cases "runBacktest mgr_split sample_data clock1 (sample_config 49)") simp_all
  have d: "sample_data (config_symbol (sample_config 49)) = Some sample_series"
    by (simp add: sample_data_def sample_config_def)
  from equity_curve_length[of mgr_split sample_data clock1 "sample_config 49" _ sample_series, OF r d, THEN conjunct2]
  show "length (equity_curve (projr (runBacktest mgr_split sample_data clock1 (sample_config 49)))) = 29"
    using length_filter_sample[of 49] by simp
qed

text \<open>
  Claim C3 as stated fails: on 50 filtered bars the equity curve has 29 points, not
  the 50 bars less the warm-up window of 20.
\<close>

theorem equity_curve_length_counterexample:
  "\<not> isl (runBacktest mgr_split sample_data clock1 (sample_config 49))
   \<and> length (filterByDate (sample_config 49) sample_series) = 50
   \<and> length (equity_curve (projr (runBacktest mgr_split sample_data clock1 (sample_config 49))))
       \<noteq> length (filterByDate (sample_config 49) sample_series) - 20"
proof (intro conjI)
  show s: "\<not> isl (runBacktest mgr_split sample_data clock1 (sample_config 49))"
    by (rule sample_run_succeeds)
  then have r: "runBacktest mgr_split sample_data clock1 (sample_config 49)
      = Inr (projr (runBacktest mgr_split sample_data clock1 (sample_config 49)))"
    by (cases "runBacktest mgr_split sample_data clock1 (sample_config 49)") simp_all
  show l: "length (filterByDate (sample_config 49) sample_series) = 50"
    using length_filter_sample[of 49] by simp
  show "length (equity_curve (projr (runBacktest mgr_split sample_data clock1 (sample_config 49))))
       \<noteq> length (filterByDate (sample_config 49) sample_series) - 20"
    using sample_run_length[OF r] l by simp
qed

section \<open>Summary and risk metrics\<close>

lemma sharpeRatio_calculateSummary:
  "sharpeRatio (calculateSummary ts ic fc md) =
    (if returnDeviation ts = Fin 0 then Fin 0 else js_div (averageReturn ts) (returnDeviation ts))"
  by (simp add: calculateSummary_def Let_def)

lemma winRate_calculateSummary:
  "winRate (calculateSummary ts ic fc md) =
    (if length ts > 0
     then js_mul (js_div (Fin (real (length (filter (\<lambda>t. js_gt (profitLoss t) (Fin 0)) ts))))
                   (Fin (real (length ts)))) (Fin 100)
     else Fin 0)"
  by (simp add: calculateSummary_def Let_def)

lemma averageReturn_no_trades: "averageReturn [] = NaN"
  by (simp add: averageReturn_def reduce_sum_def inf_of_sign_def)

lemma returnDeviation_no_trades: "returnDeviation [] = NaN"
  by (simp add: returnDeviation_def reduce_sum_def inf_of_sign_def)

lemma sharpeRatio_no_trades: "sharpeRatio (calculateSummary [] ic fc md) = NaN"
  by (simp add: sharpeRatio_calculateSummary averageReturn_no_trades returnDeviation_no_trades)

lemma averageReturn_finite:
  assumes "rs \<noteq> []" and "map profitLossPercent ts = map Fin rs"
  shows "averageReturn ts = Fin (arithmeticMean rs)"
proof -
  have n: "real (length rs) \<noteq> 0" using assms(1) by simp
  show ?thesis
    unfolding averageReturn_def Let_def assms(2) reduce_sum_Fin length_map
    using n by (simp add: arithmeticMean_def)
qed

lemma returnDeviation_finite:
  assumes "rs \<noteq> []" and "map profitLossPercent ts = map Fin rs"
  shows "returnDeviation ts
    = Fin (sqrt (arithmeticMean (map (\<lambda>r. (r - arithmeticMean rs) * (r - arithmeticMean rs)) rs)))"
proof -
  let ?m = "arithmeticMean rs"
  let ?sq = "map (\<lambda>r. (r - ?m) * (r - ?m)) rs"
  have n: "real (length rs) \<noteq> 0" using assms(1) by simp
  have sq: "map (\<lambda>r. Math_pow2 (js_sub r (Fin ?m))) (map Fin rs) = map Fin ?sq"
    by (simp add: Math_pow2_def js_sub_def)
  have nonneg: "0 \<le> arithmeticMean ?sq"
    unfolding arithmeticMean_def by (intro divide_nonneg_nonneg sum_list_nonneg) auto
  have "js_div (reduce_sum (map Fin ?sq)) (Fin (real (length rs))) = Fin (arithmeticMean ?sq)"
    unfolding reduce_sum_Fin using n by (simp add: arithmeticMean_def)
  then show ?thesis
    unfolding returnDeviation_def Let_def averageReturn_finite[OF assms] assms(2) sq length_map
    using nonneg by (simp add: not_less)
qed

lemma sharpeRatio_finite:
  assumes "rs \<noteq> []" and "map profitLossPercent ts = map Fin rs"
  shows "sharpeRatio (calculateSummary ts ic fc md) \<noteq> NaN"
  unfolding sharpeRatio_calculateSummary averageReturn_finite[OF assms] returnDeviation_finite[OF assms]
  by simp

lemma sortinoRatio_calculateAdvancedMetrics:
  "sortinoRatio (calculateAdvancedMetrics ts summ) =
    (if downsideDeviation ts = Fin 0 then Fin 0
     else js_div (totalReturnPercent summ) (downsideDeviation ts))"
  by (simp add: calculateAdvancedMetrics_def Let_def)

lemma downsideDeviation_no_negative:
  "filter (\<lambda>r. js_lt r (Fin 0)) (map profitLossPercent ts) = [] \<Longrightarrow> downsideDeviation ts = Fin 0"
  unfolding downsideDeviation_def Let_def by simp

lemma sum_squares_pos:
  assumes "xs \<noteq> []" and "list_all (\<lambda>r. r < (0::real)) xs"
  shows "0 < sum_list (map (\<lambda>r. r * r) xs)"
proof -
  from assms obtain a ys where xs: "xs = a # ys" by (cases xs) auto
  have "0 \<le> sum_list (map (\<lambda>r. r * r) ys)" by (rule sum_list_nonneg) auto
  moreover have "0 < a * a" using assms(2) xs by (simp add: zero_less_mult_iff)
  ultimately show ?thesis using xs by simp
qed

lemma downsideDeviation_finite:
  assumes r: "map profitLossPercent ts = map Fin rs"
    and neg: "filter (\<lambda>r. r < 0) rs \<noteq> []"
  shows "downsideDeviation ts = Fin (sqrt (arithmeticMean (map (\<lambda>r. r * r) (filter (\<lambda>r. r < 0) rs))))
     \<and> 0 < sqrt (arithmeticMean (map (\<lambda>r. r * r) (filter (\<lambda>r. r < 0) rs)))"
proof -
  let ?neg = "filter (\<lambda>r. r < 0) rs"
  let ?sq = "map (\<lambda>r. r * r) ?neg"
  have n: "real (length ?neg) \<noteq> 0" using neg by simp
  have pos: "0 < arithmeticMean ?sq"
    unfolding arithmeticMean_def using neg
    by (intro divide_pos_pos sum_squares_pos) (simp_all add: list_all_iff)
  have sq: "map Math_pow2 (map Fin ?neg) = map Fin ?sq"
    by (simp add: Math_pow2_def)
  have var: "js_div (reduce_sum (map Fin ?sq)) (Fin (real (length ?neg))) = Fin (arithmeticMean ?sq)"
    unfolding reduce_sum_Fin using n by (simp add: arithmeticMean_def)
  have len: "0 < length ?neg" using neg by simp
  have "downsideDeviation ts = Fin (sqrt (arithmeticMean ?sq))"
    unfolding downsideDeviation_def Let_def r filter_lt_Fin sq length_map var
    using pos len by simp
  with pos show ?thesis by simp
qed

lemma split_signals: "map action (analyzeSymbol mgr_split symb marketData) = [Buy, Sell, Hold]"
  by (simp add: analyzeSymbol_def mgr_split_def fixedStrategy_def)

lemma split_votes: "countVotes (analyzeSymbol mgr_split symb marketData) a = 1"
proof -
  have "map action (filter (\<lambda>x. action x = a) (analyzeSymbol mgr_split symb marketData))
          = filter (\<lambda>p. p = a) (map action (analyzeSymbol mgr_split symb marketData))"
    by (simp add: filter_map comp_def)
  from arg_cong[OF this, of length] show ?thesis
    unfolding countVotes_filter split_signals by (cases a) simp_all
qed

lemma split_consensus: "getConsensusSignal mgr_split symb marketData = Inr None"
proof -
  have "length (analyzeSymbol mgr_split symb marketData) = 3"
    using arg_cong[OF split_signals, of length symb marketData] by simp
  then show ?thesis
    unfolding getConsensusSignal_def
    by (intro consensusOf_None) (simp add: split_votes)
qed

lemma runTrades_processBar_None:
  "getConsensusSignal mgr (config_symbol cfg) (map asMarketDatum (take (i + 1) fd)) = Inr None
   \<Longrightarrow> runTrades (processBar mgr now cfg fd st i) = runTrades st"
  by (simp add: processBar_def Let_def)

lemma runTrades_split_foldl:
  "runTrades (foldl (processBar mgr_split now cfg fd) st is) = runTrades st"
  by (induction "is" arbitrary: st) (simp_all add: runTrades_processBar_None split_consensus)

lemma trades_split_run:
  assumes "runBacktest mgr_split historicalData now cfg = Inr r"
  shows "trades r = []"
proof -
  from assms obtain series where "trades r = runTrades (simulate mgr_split now cfg (filterByDate cfg series))"
    by (rule runBacktest_Inr)
  then show ?thesis by (simp add: simulate_def runTrades_split_foldl initialState_def)
qed

text \<open>
  Claim C10. \<open>calculateSummary\<close> guards \<open>winRate\<close> for an empty trade list (it is 0) but
  not the Sharpe ratio: the sum of the per-trade return percentages is divided by the
  number of trades without a guard, so for no trades the average return is \<open>0/0\<close> and
  the summary's \<open>sharpeRatio\<close> is \<open>NaN\<close>, also in the result of a backtest run that
  recorded no trade. With at least one trade and finite return percentages the Sharpe
  ratio is a number.
\<close>

theorem calculateSummary_no_trades:
  "sharpeRatio (calculateSummary [] initialCap finalCapital maxDD) = NaN
   \<and> averageReturn [] = js_div (Fin 0) (Fin 0)
   \<and> winRate (calculateSummary [] initialCap finalCapital maxDD) = Fin 0
   \<and> (runBacktest mgr historicalData now cfg = Inr r \<and> trades r = []
        \<longrightarrow> sharpeRatio (summary r) = NaN \<and> winRate (summary r) = Fin 0)
   \<and> (ts \<noteq> [] \<and> map profitLossPercent ts = map Fin rs
        \<longrightarrow> sharpeRatio (calculateSummary ts initialCap finalCapital maxDD) \<noteq> NaN)"
proof (intro conjI impI)
  show "sharpeRatio (calculateSummary [] initialCap finalCapital maxDD) = NaN"
    by (rule sharpeRatio_no_trades)
  show "averageReturn [] = js_div (Fin 0) (Fin 0)"
    by (simp add: averageReturn_def reduce_sum_def)
  show "winRate (calculateSummary [] initialCap finalCapital maxDD) = Fin 0"
    by (simp add: winRate_calculateSummary)
next
  assume a: "runBacktest mgr historicalData now cfg = Inr r \<and> trades r = []"
  then obtain series where s: "summary r = calculateSummary (trades r) (initialCapital cfg)
            (capital (simulate mgr now cfg (filterByDate cfg series)))
            (runMaxDrawdown (simulate mgr now cfg (filterByDate cfg series)))"
    by (blast elim: runBacktest_Inr)
  show "sharpeRatio (summary r) = NaN"
    unfolding s using a by (simp add: sharpeRatio_no_trades)
  show "winRate (summary r) = Fin 0"
    unfolding s using a by (simp add: winRate_calculateSummary)
next
  assume a: "ts \<noteq> [] \<and> map profitLossPercent ts = map Fin rs"
  then have "rs \<noteq> []" by auto
  with a show "sharpeRatio (calculateSummary ts initialCap finalCapital maxDD) \<noteq> NaN"
    by (simp add: sharpeRatio_finite)
qed

theorem calculateSummary_no_trades_witness:
  "\<not> isl (runBacktest mgr_split sample_data clock1 (sample_config 49))
   \<and> sharpeRatio (summary (projr (runBacktest mgr_split sample_data clock1 (sample_config 49)))) = NaN
   \<and> sharpeRatio (calculateSummary [sample_trade] (Fin 10000) (Fin 10495) (Fin 0)) \<noteq> NaN"
proof (intro conjI)
  show s: "\<not> isl (runBacktest mgr_split sample_data clock1 (sample_config 49))"
    by (rule sample_run_succeeds)
  then have r: "runBacktest mgr_split sample_data clock1 (sample_config 49)
      = Inr (projr (runBacktest mgr_split sample_data clock1 (sample_config 49)))"
    by (cases "runBacktest mgr_split sample_data clock1 (sample_config 49)") simp_all
  from calculateSummary_no_trades[of _ _ _ mgr_split sample_data clock1 "sample_config 49",
      THEN conjunct2, THEN conjunct2, THEN conjunct2, THEN conjunct1] r trades_split_run[OF r]
  show "sharpeRatio (summary (projr (runBacktest mgr_split sample_data clock1 (sample_config 49)))) = NaN"
    by blast
next
  have "map profitLossPercent [sample_trade] = map Fin [99 / 10]"
    by (simp add: sample_trade_def)
  with calculateSummary_no_trades[of _ _ _ _ _ _ _ _ "[sample_trade]" "[99 / 10]",
      THEN conjunct2, THEN conjunct2, THEN conjunct2, THEN conjunct2]
  show "sharpeRatio (calculateSummary [sample_trade] (Fin 10000) (Fin 10495) (Fin 0)) \<noteq> NaN"
    by blast
qed

text \<open>
  Claim C6, as amended. \<open>sortinoRatio\<close> is 0 when no per-trade return percentage is
  negative; otherwise (finite figures) it is the summary's \<open>totalReturnPercent\<close> divided
  by the square root of the mean of the squares of the negative return percentages.
\<close>

theorem sortinoRatio_formula:
  "(filter (\<lambda>r. js_lt r (Fin 0)) (map profitLossPercent ts) = []
      \<longrightarrow> sortinoRatio (calculateAdvancedMetrics ts summ) = Fin 0)
   \<and> (map profitLossPercent ts = map Fin rs \<and> filter (\<lambda>r. r < 0) rs \<noteq> []
        \<and> totalReturnPercent summ = Fin p
      \<longrightarrow> sortinoRatio (calculateAdvancedMetrics ts summ)
            = Fin (p / sqrt (arithmeticMean (map (\<lambda>r. r * r) (filter (\<lambda>r. r < 0) rs)))))"
proof (intro conjI impI)
  assume "filter (\<lambda>r. js_lt r (Fin 0)) (map profitLossPercent ts) = []"
  then show "sortinoRatio (calculateAdvancedMetrics ts summ) = Fin 0"
    by (simp add: sortinoRatio_calculateAdvancedMetrics downsideDeviation_no_negative)
next
  assume a: "map profitLossPercent ts = map Fin rs \<and> filter (\<lambda>r. r < 0) rs \<noteq> []
        \<and> totalReturnPercent summ = Fin p"
  then have d: "downsideDeviation ts = Fin (sqrt (arithmeticMean (map (\<lambda>r. r * r) (filter (\<lambda>r. r < 0) rs))))"
    and pos: "0 < sqrt (arithmeticMean (map (\<lambda>r. r * r) (filter (\<lambda>r. r < 0) rs)))"
    using downsideDeviation_finite[of ts rs] by simp_all
  show "sortinoRatio (calculateAdvancedMetrics ts summ)
            = Fin (p / sqrt (arithmeticMean (map (\<lambda>r. r * r) (filter (\<lambda>r. r < 0) rs))))"
    unfolding sortinoRatio_calculateAdvancedMetrics d using a pos by simp
qed

theorem sortinoRatio_formula_witness:
  "sortinoRatio (calculateAdvancedMetrics [sample_trade]
      (calculateSummary [sample_trade] (Fin 10000) (Fin 10495) (Fin 0))) = Fin 0
   \<and> sortinoRatio (calculateAdvancedMetrics [sample_trade, losing_trade]
      (calculateSummary [sample_trade, losing_trade] (Fin 10000) (Fin 10345) (Fin (150 / 10495 * 100))))
       = Fin (345 / 100 / 3)"
proof
  have "filter (\<lambda>r. js_lt r (Fin 0)) (map profitLossPercent [sample_trade]) = []"
    by (simp add: sample_trade_def)
  with sortinoRatio_formula[of "[sample_trade]"]
  show "sortinoRatio (calculateAdvancedMetrics [sample_trade]
      (calculateSummary [sample_trade] (Fin 10000) (Fin 10495) (Fin 0))) = Fin 0"
    by blast
next
  let ?s = "calculateSummary [sample_trade, losing_trade] (Fin 10000) (Fin 10345) (Fin (150 / 10495 * 100))"
  have r: "map profitLossPercent [sample_trade, losing_trade] = map Fin [99 / 10, - 3]"
    by (simp add: sample_trade_def losing_trade_def)
  have n: "filter (\<lambda>r. r < 0) [99 / 10, - 3 :: real] \<noteq> []" by simp
  have t: "totalReturnPercent ?s = Fin (345 / 100)"
    by (simp add: calculateSummary_def Let_def js_sub_def)
  from sortinoRatio_formula[of "[sample_trade, losing_trade]" ?s "[99 / 10, - 3]" "345 / 100",
      THEN conjunct2] r n t
  have "sortinoRatio (calculateAdvancedMetrics [sample_trade, losing_trade] ?s)
      = Fin (345 / 100 / sqrt (arithmeticMean (map (\<lambda>r. r * r) (filter (\<lambda>r. r < 0) [99 / 10, - 3]))))"
    by blast
  then show "sortinoRatio (calculateAdvancedMetrics [sample_trade, losing_trade] ?s) = Fin (345 / 100 / 3)"
    by (simp add: arithmeticMean_def)
qed

text \<open>
  Claim C6 as stated fails: with no negative return (one winning trade, or no trade at
  all) \<open>sortinoRatio\<close> is 0, not \<open>Infinity\<close>.
\<close>

theorem sortinoRatio_counterexample:
  "filter (\<lambda>r. js_lt r (Fin 0)) (map profitLossPercent [sample_trade]) = []
   \<and> sortinoRatio (calculateAdvancedMetrics [sample_trade]
        (calculateSummary [sample_trade] (Fin 10000) (Fin 10495) (Fin 0))) \<noteq> PosInf
   \<and> sortinoRatio (calculateAdvancedMetrics []
        (calculateSummary [] (Fin 10000) (Fin 10000) (Fin 0))) \<noteq> PosInf"
  by (simp add: sortinoRatio_calculateAdvancedMetrics downsideDeviation_no_negative sample_trade_def)

section \<open>Determinism of a run\<close>

lemma executeTrade_sameState:
  assumes "sameStateUpToIds s1 s2"
  shows "sameStateUpToIds (executeTrade now1 cfg fd i c s1) (executeTrade now2 cfg fd i c s2)"
  using assms by (simp add: sameStateUpToIds_def executeTrade_def Let_def forgetId_def)

lemma processBar_sameState:
  assumes "sameStateUpToIds s1 s2"
  shows "sameStateUpToIds (processBar mgr now1 cfg fd s1 i) (processBar mgr now2 cfg fd s2 i)"
proof (cases "getConsensusSignal mgr (config_symbol cfg) (map asMarketDatum (take (i + 1) fd))")
  case (Inl e)
  then show ?thesis using assms by (simp add: processBar_def Let_def)
next
  case (Inr res)
  show ?thesis
  proof (cases res)
    case None
    with Inr assms show ?thesis
      by (simp add: processBar_def Let_def sameStateUpToIds_def)
  next
    case (Some c)
    have e: "sameStateUpToIds (executeTrade now1 cfg fd i c s1) (executeTrade now2 cfg fd i c s2)"
      by (rule executeTrade_sameState[OF assms])
    show ?thesis
    proof (cases "action c = Hold")
      case True
      with Inr Some assms show ?thesis
        by (simp add: processBar_def Let_def sameStateUpToIds_def)
    next
      case False
      with Inr Some e show ?thesis
        by (simp add: processBar_def Let_def sameStateUpToIds_def)
    qed
  qed
qed

lemma foldl_sameState:
  "sameStateUpToIds s1 s2 \<Longrightarrow>
   sameStateUpToIds (foldl (processBar mgr now1 cfg fd) s1 is) (foldl (processBar mgr now2 cfg fd) s2 is)"
  by (induction "is" arbitrary: s1 s2) (simp_all add: processBar_sameState)

lemma simulate_sameState:
  "sameStateUpToIds (simulate mgr now1 cfg fd) (simulate mgr now2 cfg fd)"
  unfolding simulate_def by (rule foldl_sameState) (simp add: sameStateUpToIds_def)

lemma filter_forgetId:
  "(\<And>t. P (forgetId t) = P t) \<Longrightarrow> filter P (map forgetId ts) = map forgetId (filter P ts)"
  by (induction ts) simp_all

lemma averageReturn_forgetId: "averageReturn (map forgetId ts) = averageReturn ts"
  by (simp add: averageReturn_def comp_def forgetId_def)

lemma returnDeviation_forgetId: "returnDeviation (map forgetId ts) = returnDeviation ts"
  by (simp add: returnDeviation_def averageReturn_forgetId Let_def comp_def forgetId_def)

lemma downsideDeviation_forgetId: "downsideDeviation (map forgetId ts) = downsideDeviation ts"
  by (simp add: downsideDeviation_def Let_def comp_def forgetId_def)

lemma calculateSummary_forgetId:
  "calculateSummary (map forgetId ts) a b c = calculateSummary ts a b c"
proof -
  have w: "filter (\<lambda>t. js_gt (profitLoss t) (Fin 0)) (map forgetId ts)
             = map forgetId (filter (\<lambda>t. js_gt (profitLoss t) (Fin 0)) ts)"
    by (rule filter_forgetId) (simp add: forgetId_def)
  have l: "filter (\<lambda>t. js_lt (profitLoss t) (Fin 0)) (map forgetId ts)
             = map forgetId (filter (\<lambda>t. js_lt (profitLoss t) (Fin 0)) ts)"
    by (rule filter_forgetId) (simp add: forgetId_def)
  show ?thesis
    unfolding calculateSummary_def Let_def w l averageReturn_forgetId returnDeviation_forgetId
    by (simp add: forgetId_def comp_def)
qed

lemma calculateAdvancedMetrics_forgetId:
  "calculateAdvancedMetrics (map forgetId ts) s = calculateAdvancedMetrics ts s"
  by (simp add: calculateAdvancedMetrics_def downsideDeviation_forgetId)

lemma calculateSummary_cong_ids:
  assumes "map forgetId ts1 = map forgetId ts2"
  shows "calculateSummary ts1 a b c = calculateSummary ts2 a b c"
  using calculateSummary_forgetId[of ts1 a b c] calculateSummary_forgetId[of ts2 a b c] assms
  by simp

lemma calculateAdvancedMetrics_cong_ids:
  assumes "map forgetId ts1 = map forgetId ts2"
  shows "calculateAdvancedMetrics ts1 s = calculateAdvancedMetrics ts2 s"
  using calculateAdvancedMetrics_forgetId[of ts1 s] calculateAdvancedMetrics_forgetId[of ts2 s] assms
  by simp

lemma runBacktest_sameUpToIds:
  "rel_sum (=) sameUpToIds (runBacktest mgr historicalData now1 cfg)
     (runBacktest mgr historicalData now2 cfg)"
proof (cases "historicalData (config_symbol cfg)")
  case None
  then show ?thesis by (simp add: runBacktest_def)
next
  case (Some series)
  let ?fd = "filterByDate cfg series"
  note s = simulate_sameState[of mgr now1 cfg ?fd now2, unfolded sameStateUpToIds_def]
  from s have t: "map forgetId (runTrades (simulate mgr now1 cfg ?fd))
               = map forgetId (runTrades (simulate mgr now2 cfg ?fd))" by simp
  have sm: "calculateSummary (runTrades (simulate mgr now1 cfg ?fd)) a b c
          = calculateSummary (runTrades (simulate mgr now2 cfg ?fd)) a b c" for a b c
    by (rule calculateSummary_cong_ids[OF t])
  have am: "calculateAdvancedMetrics (runTrades (simulate mgr now1 cfg ?fd)) x
          = calculateAdvancedMetrics (runTrades (simulate mgr now2 cfg ?fd)) x" for x
    by (rule calculateAdvancedMetrics_cong_ids[OF t])
  show ?thesis
    using Some s by (simp add: runBacktest_def Let_def sameUpToIds_def sm am)
qed

section \<open>Trades on historical bars\<close>

lemma js_add_NaN [simp]: "js_add x NaN = NaN" "js_add NaN x = NaN"
  by (cases x; simp)+

lemma js_sub_NaN [simp]: "js_sub x NaN = NaN" "js_sub NaN x = NaN"
  by (simp_all add: js_sub_def)

lemma js_mul_NaN [simp]: "js_mul x NaN = NaN" "js_mul NaN x = NaN"
  by (cases x; simp)+

lemma js_div_NaN [simp]: "js_div x NaN = NaN" "js_div NaN x = NaN"
  by (cases x; simp)+

lemma Math_max_NaN [simp]: "Math_max x NaN = NaN" "Math_max NaN x = NaN"
  by (simp_all add: Math_max_def)

lemma Math_min_NaN [simp]: "Math_min x NaN = NaN" "Math_min NaN x = NaN"
  by (simp_all add: Math_min_def)

lemma foldl_js_add_NaN: "foldl js_add NaN xs = NaN"
  by (induction xs) simp_all

lemma reduce_sum_NaN: "xs \<noteq> [] \<Longrightarrow> list_all (\<lambda>x. x = NaN) xs \<Longrightarrow> reduce_sum xs = NaN"
  by (cases xs) (simp_all add: reduce_sum_def foldl_js_add_NaN)

text \<open>The consensus on historical bars has no entry price.\<close>

lemma consensus_entryPrice:
  assumes "getConsensusSignal mgr symb (map asMarketDatum ds) = Inr (Some c)"
  shows "entryPrice c = NaN"
proof -
  from assms have c: "c = consensusSignalOf symb (map asMarketDatum ds) (analyzeSymbol mgr symb (map asMarketDatum ds))"
    and ne: "map asMarketDatum ds \<noteq> []"
    by (simp_all add: getConsensusSignal_def consensusOf_Some_iff)
  from ne have "price (last (map asMarketDatum ds)) = NaN"
    by (simp add: last_map asMarketDatum_def)
  then show ?thesis by (simp add: c consensusSignalOf_def Let_def)
qed

lemma calculatePositionSize_NaN: "entryPrice c = NaN \<Longrightarrow> calculatePositionSize cap c = NaN"
  by (simp add: calculatePositionSize_def)

lemma executeTrade_NaN:
  assumes "entryPrice c = NaN"
  shows "capital (executeTrade now cfg fd i c st) = NaN"
    and "maxCapital (executeTrade now cfg fd i c st) = NaN"
    and "currentDrawdown (executeTrade now cfg fd i c st) = NaN"
    and "runMaxDrawdown (executeTrade now cfg fd i c st) = NaN"
    and "\<exists>t. runTrades (executeTrade now cfg fd i c st) = runTrades st @ [t]
           \<and> profitLossPercent t = NaN \<and> quantity t = NaN
           \<and> trade_id t = config_symbol cfg @ ''-'' @ string_of_nat i @ ''-'' @ string_of_nat (now i)"
  using assms by (simp_all add: executeTrade_def Let_def calculatePositionSize_NaN)

lemma backtest_signals:
  "map action (analyzeSymbol mgr_backtest symb marketData) = [Buy, Hold, Buy]"
  by (simp add: analyzeSymbol_def mgr_backtest_def fixedStrategy_def)

lemma backtest_votes:
  "countVotes (analyzeSymbol mgr_backtest symb marketData) a = (if a = Buy then 2 else if a = Hold then 1 else 0)"
proof -
  have "map action (filter (\<lambda>x. action x = a) (analyzeSymbol mgr_backtest symb marketData))
          = filter (\<lambda>p. p = a) (map action (analyzeSymbol mgr_backtest symb marketData))"
    by (simp add: filter_map comp_def)
  from arg_cong[OF this, of length] show ?thesis
    unfolding countVotes_filter backtest_signals by (cases a) simp_all
qed

lemma backtest_consensus:
  assumes "marketData \<noteq> []"
  shows "\<exists>c. getConsensusSignal mgr_backtest symb marketData = Inr (Some c) \<and> action c = Buy"
proof -
  let ?sigs = "analyzeSymbol mgr_backtest symb marketData"
  have len: "length ?sigs = 3"
    using arg_cong[OF backtest_signals, of length symb marketData] by simp
  have w: "winningActionOf (countVotes ?sigs) = Buy"
    by (simp add: winningActionOf_def backtest_votes)
  have ne: "?sigs \<noteq> []" using len by auto
  have "getConsensusSignal mgr_backtest symb marketData
          = Inr (Some (consensusSignalOf symb marketData ?sigs))"
    unfolding getConsensusSignal_def consensusOf_Some_iff
    using assms ne by (simp add: w backtest_votes len)
  moreover have "action (consensusSignalOf symb marketData ?sigs) = Buy"
    by (simp add: consensusSignalOf_action w)
  ultimately show ?thesis by blast
qed

text \<open>With this manager every iterated bar trades.\<close>

lemma backtest_processBar:
  assumes "fd \<noteq> []"
  shows "\<exists>t p. runTrades (processBar mgr_backtest now cfg fd st i) = runTrades st @ [t]
           \<and> trade_id t = config_symbol cfg @ ''-'' @ string_of_nat i @ ''-'' @ string_of_nat (now i)
           \<and> equityCurve (processBar mgr_backtest now cfg fd st i) = equityCurve st @ [p]
           \<and> drawdown p = NaN \<and> equity p = NaN
           \<and> runMaxDrawdown (processBar mgr_backtest now cfg fd st i) = NaN"
proof -
  have "map asMarketDatum (take (i + 1) fd) \<noteq> []" using assms by simp
  from backtest_consensus[OF this] obtain c where
    c: "getConsensusSignal mgr_backtest (config_symbol cfg) (map asMarketDatum (take (i + 1) fd)) = Inr (Some c)"
    and a: "action c = Buy" by blast
  note n = executeTrade_NaN[OF consensus_entryPrice[OF c], of now cfg fd i st]
  from n(5) obtain t where t: "runTrades (executeTrade now cfg fd i c st) = runTrades st @ [t]"
    and tid: "trade_id t = config_symbol cfg @ ''-'' @ string_of_nat i @ ''-'' @ string_of_nat (now i)"
    by blast
  have p: "processBar mgr_backtest now cfg fd st i =
      (executeTrade now cfg fd i c st) \<lparr> equityCurve := equityCurve (executeTrade now cfg fd i c st) @
         [\<lparr> point_timestamp = timestamp (fd ! i), equity = capital (executeTrade now cfg fd i c st),
            drawdown = currentDrawdown (executeTrade now cfg fd i c st) \<rparr>] \<rparr>"
    unfolding processBar_def Let_def c using a by simp
  show ?thesis
    unfolding p using t tid n(1-4) by (simp add: equityCurve_executeTrade)
qed

lemma runTrades_foldl_prefix:
  "\<exists>ts. runTrades (foldl (processBar mgr now cfg fd) st is) = runTrades st @ ts"
proof (induction "is" arbitrary: st)
  case Nil
  show ?case by simp
next
  case (Cons i "is")
  have "\<exists>ts. runTrades (processBar mgr now cfg fd st i) = runTrades st @ ts"
    by (simp add: processBar_def Let_def executeTrade_def split: sum.split option.split)
  then obtain t1 where t1: "runTrades (processBar mgr now cfg fd st i) = runTrades st @ t1" by blast
  from Cons[of "processBar mgr now cfg fd st i"] obtain t2 where
    "runTrades (foldl (processBar mgr now cfg fd) (processBar mgr now cfg fd st i) is)
       = runTrades (processBar mgr now cfg fd st i) @ t2" by blast
  with t1 show ?case by simp
qed

lemma backtest_drawdowns:
  assumes "fd \<noteq> []"
  shows "list_all (\<lambda>p. drawdown p = NaN) (equityCurve st)
    \<Longrightarrow> list_all (\<lambda>p. drawdown p = NaN) (equityCurve (foldl (processBar mgr_backtest now cfg fd) st is))"
proof (induction "is" arbitrary: st)
  case Nil
  then show ?case by simp
next
  case (Cons i "is")
  from backtest_processBar[OF assms, of now cfg st i] obtain p where
    "equityCurve (processBar mgr_backtest now cfg fd st i) = equityCurve st @ [p]" "drawdown p = NaN"
    by blast
  with Cons.prems have "list_all (\<lambda>p. drawdown p = NaN) (equityCurve (processBar mgr_backtest now cfg fd st i))"
    by simp
  from Cons.IH[OF this] show ?case by simp
qed

lemma string_1000: "string_of_nat 1000 = ''1000''" "string_of_nat 2000 = ''2000''" "string_of_nat 20 = ''20''"
  by (simp_all add: string_of_nat.simps)

lemma sample_run_parts:
  obtains r where "runBacktest mgr sample_data now (sample_config 49) = Inr r"
    and "trades r = runTrades (simulate mgr now (sample_config 49) (filterByDate (sample_config 49) sample_series))"
    and "equity_curve r = equityCurve (simulate mgr now (sample_config 49) (filterByDate (sample_config 49) sample_series))"
    and "maxDrawdown (summary r) = runMaxDrawdown (simulate mgr now (sample_config 49) (filterByDate (sample_config 49) sample_series))"
proof -
  have d: "sample_data (config_symbol (sample_config 49)) = Some sample_series"
    by (simp add: sample_data_def sample_config_def)
  have l: "50 \<le> length (filterByDate (sample_config 49) sample_series)"
    using length_filter_sample[of 49] by simp
  from runBacktest_succeeds[of sample_data "sample_config 49" sample_series mgr now, OF d l]
  obtain r where r: "runBacktest mgr sample_data now (sample_config 49) = Inr r" by blast
  from r obtain series where s: "sample_data (config_symbol (sample_config 49)) = Some series"
    and t: "trades r = runTrades (simulate mgr now (sample_config 49) (filterByDate (sample_config 49) series))"
    and e: "equity_curve r = equityCurve (simulate mgr now (sample_config 49) (filterByDate (sample_config 49) series))"
    and m: "summary r = calculateSummary (trades r) (initialCapital (sample_config 49))
            (capital (simulate mgr now (sample_config 49) (filterByDate (sample_config 49) series)))
            (runMaxDrawdown (simulate mgr now (sample_config 49) (filterByDate (sample_config 49) series)))"
    by (rule runBacktest_Inr)
  from s d have [simp]: "series = sample_series" by simp
  have "maxDrawdown (summary r) = runMaxDrawdown (simulate mgr now (sample_config 49) (filterByDate (sample_config 49) sample_series))"
    unfolding m by (simp add: calculateSummary_def Let_def)
  with r t e that show ?thesis by simp
qed

text \<open>With only the technical strategy active, its buy is the consensus.\<close>

lemma technical_signals:
  "map action (analyzeSymbol mgr_technical symb marketData) = [Buy]"
  by (simp add: analyzeSymbol_def mgr_technical_def mgr_backtest_def fixedStrategy_def)

lemma technical_votes:
  "countVotes (analyzeSymbol mgr_technical symb marketData) a = (if a = Buy then 1 else 0)"
proof -
  have "map action (filter (\<lambda>x. action x = a) (analyzeSymbol mgr_technical symb marketData))
          = filter (\<lambda>p. p = a) (map action (analyzeSymbol mgr_technical symb marketData))"
    by (simp add: filter_map comp_def)
  from arg_cong[OF this, of length] show ?thesis
    unfolding countVotes_filter technical_signals by (cases a) simp_all
qed

lemma technical_consensus:
  assumes "marketData \<noteq> []"
  shows "\<exists>c. getConsensusSignal mgr_technical symb marketData = Inr (Some c) \<and> action c = Buy"
proof -
  let ?sigs = "analyzeSymbol mgr_technical symb marketData"
  have len: "length ?sigs = 1"
    using arg_cong[OF technical_signals, of length symb marketData] by simp
  have w: "winningActionOf (countVotes ?sigs) = Buy"
    by (simp add: winningActionOf_def technical_votes)
  have ne: "?sigs \<noteq> []" using len by auto
  have "getConsensusSignal mgr_technical symb marketData
          = Inr (Some (consensusSignalOf symb marketData ?sigs))"
    unfolding getConsensusSignal_def consensusOf_Some_iff
    using assms ne by (simp add: w technical_votes len)
  moreover have "action (consensusSignalOf symb marketData ?sigs) = Buy"
    by (simp add: consensusSignalOf_action w)
  ultimately show ?thesis by blast
qed

lemma executeTrade_id:
  "\<exists>t. runTrades (executeTrade now cfg fd i c st) = runTrades st @ [t]
     \<and> trade_id t = config_symbol cfg @ ''-'' @ string_of_nat i @ ''-'' @ string_of_nat (now i)"
  by (simp add: executeTrade_def Let_def)

lemma first_trade_id:
  assumes "22 \<le> length fd"
    and c: "getConsensusSignal mgr (config_symbol cfg) (map asMarketDatum (take (20 + 1) fd)) = Inr (Some c)"
    and a: "action c = Buy"
  shows "trade_id (hd (runTrades (simulate mgr now cfg fd)))
           = config_symbol cfg @ ''-'' @ string_of_nat 20 @ ''-'' @ string_of_nat (now 20)"
proof -
  have idx: "[20..<length fd - 1] = 20 # [21..<length fd - 1]"
    using assms(1) by (simp add: upt_conv_Cons)
  from executeTrade_id[of now cfg fd 20 c "initialState cfg"] obtain t where
    t: "runTrades (executeTrade now cfg fd 20 c (initialState cfg)) = [t]"
    and tid: "trade_id t = config_symbol cfg @ ''-'' @ string_of_nat 20 @ ''-'' @ string_of_nat (now 20)"
    by (auto simp: initialState_def)
  have p: "runTrades (processBar mgr now cfg fd (initialState cfg) 20) = [t]"
    unfolding processBar_def Let_def c using a t by simp
  from runTrades_foldl_prefix[of mgr now cfg fd "processBar mgr now cfg fd (initialState cfg) 20" "[21..<length fd - 1]"]
  obtain ts where "runTrades (simulate mgr now cfg fd) = [t] @ ts"
    unfolding simulate_def idx using p by auto
  then show ?thesis using tid by simp
qed

lemma technical_first_id:
  "trade_id (hd (trades (projr (runBacktest mgr_technical sample_data now (sample_config 49)))))
     = ''AAPL-20-'' @ string_of_nat (now 20)"
proof -
  let ?fd = "filterByDate (sample_config 49) sample_series"
  obtain r where r: "runBacktest mgr_technical sample_data now (sample_config 49) = Inr r"
    and t: "trades r = runTrades (simulate mgr_technical now (sample_config 49) ?fd)"
    by (rule sample_run_parts)
  have l: "22 \<le> length ?fd"
    using length_filter_sample[of 49] by simp
  then have "map asMarketDatum (take (20 + 1) ?fd) \<noteq> []" by auto
  from technical_consensus[OF this, of "config_symbol (sample_config 49)"] obtain c where
    c: "getConsensusSignal mgr_technical (config_symbol (sample_config 49))
          (map asMarketDatum (take (20 + 1) ?fd)) = Inr (Some c)"
    and a: "action c = Buy" by blast
  have s: "config_symbol (sample_config 49) = ''AAPL''"
    by (simp add: sample_config_def)
  from first_trade_id[OF l c a, of now] show ?thesis
    by (simp add: r t s string_1000)
qed

text \<open>
  Claim C8, as amended. Two runs of \<open>runBacktest\<close> on the same manager (strategies
  that are functions of their input), the same historical data and the same
  configuration either fail with the same error or return results with the same
  summary, equity curve, metrics and configuration and the same trades up to their
  ids: whatever the clock reads, it reaches the result only through the trade ids.
\<close>

theorem runBacktest_deterministic_up_to_ids:
  "rel_sum (=) sameUpToIds (runBacktest mgr historicalData now1 cfg)
     (runBacktest mgr historicalData now2 cfg)"
  by (rule runBacktest_sameUpToIds)

text \<open>
  Claim C8 as stated fails for the trade ids, with a strategy set that has no arbitrage
  strategy: only the technical strategy is active, and on the falling sample bars it
  answers buy. The id of a trade ends with the reading of \<open>Date.now()\<close>, so two runs at
  different times differ in their first trade id, and so as results.
\<close>

theorem runBacktest_deterministic_counterexample:
  "trade_id (hd (trades (projr (runBacktest mgr_technical sample_data clock1 (sample_config 49)))))
     = ''AAPL-20-1000''
   \<and> trade_id (hd (trades (projr (runBacktest mgr_technical sample_data clock2 (sample_config 49)))))
     = ''AAPL-20-2000''
   \<and> runBacktest mgr_technical sample_data clock1 (sample_config 49)
     \<noteq> runBacktest mgr_technical sample_data clock2 (sample_config 49)"
proof -
  have a: "trade_id (hd (trades (projr (runBacktest mgr_technical sample_data clock1 (sample_config 49)))))
     = ''AAPL-20-1000''"
    by (simp add: technical_first_id clock1_def string_1000)
  have b: "trade_id (hd (trades (projr (runBacktest mgr_technical sample_data clock2 (sample_config 49)))))
     = ''AAPL-20-2000''"
    by (simp add: technical_first_id clock2_def string_1000)
  have "runBacktest mgr_technical sample_data clock1 (sample_config 49)
     \<noteq> runBacktest mgr_technical sample_data clock2 (sample_config 49)"
  proof
    assume "runBacktest mgr_technical sample_data clock1 (sample_config 49)
      = runBacktest mgr_technical sample_data clock2 (sample_config 49)"
    with a b show False by simp
  qed
  with a b show ?thesis by simp
qed

lemma backtest_maxDrawdown:
  assumes "fd \<noteq> []" and "is \<noteq> []"
  shows "runMaxDrawdown (foldl (processBar mgr_backtest now cfg fd) st is) = NaN"
proof -
  from assms(2) obtain js j where "is = js @ [j]" by (cases "is" rule: rev_exhaust) auto
  then show ?thesis
    using backtest_processBar[OF assms(1), of now cfg "foldl (processBar mgr_backtest now cfg fd) st js" j]
    by auto
qed

text \<open>
  Claim C4 on the code. The consensus signal takes its entry price from the field
  \<open>price\<close> of the latest bar, which historical bars do not have; the position size of
  every trade is therefore \<open>NaN\<close>, and so are the capital and the drawdowns from the
  first trade on. In the run below every iterated bar trades: the run succeeds with 29
  equity points, the drawdown of the first point is \<open>NaN\<close>, which is neither at least
  0 nor at most 100, and the maximal drawdown of the summary is \<open>NaN\<close>.
\<close>

theorem drawdown_not_a_number:
  "\<not> isl (runBacktest mgr_backtest sample_data clock1 (sample_config 49))
   \<and> length (equity_curve (projr (runBacktest mgr_backtest sample_data clock1 (sample_config 49)))) = 29
   \<and> drawdown (hd (equity_curve (projr (runBacktest mgr_backtest sample_data clock1 (sample_config 49))))) = NaN
   \<and> \<not> js_ge (drawdown (hd (equity_curve (projr (runBacktest mgr_backtest sample_data clock1 (sample_config 49)))))) (Fin 0)
   \<and> \<not> js_le (drawdown (hd (equity_curve (projr (runBacktest mgr_backtest sample_data clock1 (sample_config 49)))))) (Fin 100)
   \<and> maxDrawdown (summary (projr (runBacktest mgr_backtest sample_data clock1 (sample_config 49)))) = NaN"
proof -
  let ?fd = "filterByDate (sample_config 49) sample_series"
  obtain r where r: "runBacktest mgr_backtest sample_data clock1 (sample_config 49) = Inr r"
    and e: "equity_curve r = equityCurve (simulate mgr_backtest clock1 (sample_config 49) ?fd)"
    and m: "maxDrawdown (summary r) = runMaxDrawdown (simulate mgr_backtest clock1 (sample_config 49) ?fd)"
    by (rule sample_run_parts)
  have len: "length ?fd = 50" using length_filter_sample[of 49] by simp
  then have fd: "?fd \<noteq> []" by auto
  have l: "length (equity_curve r) = 29" by (rule sample_run_length[OF r])
  then have ne: "equity_curve r \<noteq> []" by auto
  have "list_all (\<lambda>p. drawdown p = NaN) (equity_curve r)"
    unfolding e simulate_def by (rule backtest_drawdowns[OF fd]) (simp add: initialState_def)
  with ne have h: "drawdown (hd (equity_curve r)) = NaN"
    by (cases "equity_curve r") simp_all
  have mx: "maxDrawdown (summary r) = NaN"
    unfolding m simulate_def by (rule backtest_maxDrawdown[OF fd]) (simp add: len)
  show ?thesis by (simp add: r l h mx js_ge_def)
qed

section \<open>The optimizer\<close>

lemma returns_NaN_processBar:
  assumes "list_all (\<lambda>t. profitLossPercent t = NaN) (runTrades st)"
  shows "list_all (\<lambda>t. profitLossPercent t = NaN) (runTrades (processBar mgr now cfg fd st i))"
proof (cases "getConsensusSignal mgr (config_symbol cfg) (map asMarketDatum (take (i + 1) fd))")
  case (Inl e)
  then show ?thesis using assms by (simp add: processBar_def Let_def)
next
  case (Inr res)
  show ?thesis
  proof (cases res)
    case None
    with Inr assms show ?thesis by (simp add: processBar_def Let_def)
  next
    case (Some c)
    with Inr have "entryPrice c = NaN" by (simp add: consensus_entryPrice)
    from executeTrade_NaN(5)[OF this, of now cfg fd i st] obtain t where
      "runTrades (executeTrade now cfg fd i c st) = runTrades st @ [t]" "profitLossPercent t = NaN"
      by blast
    with Inr Some assms show ?thesis by (simp add: processBar_def Let_def)
  qed
qed

lemma returns_NaN_foldl:
  "list_all (\<lambda>t. profitLossPercent t = NaN) (runTrades st)
   \<Longrightarrow> list_all (\<lambda>t. profitLossPercent t = NaN) (runTrades (foldl (processBar mgr now cfg fd) st is))"
  by (induction "is" arbitrary: st) (simp_all add: returns_NaN_processBar)

lemma returns_NaN_simulate:
  "list_all (\<lambda>t. profitLossPercent t = NaN) (runTrades (simulate mgr now cfg fd))"
  unfolding simulate_def by (rule returns_NaN_foldl) (simp add: initialState_def)

lemma averageReturn_NaN:
  assumes "list_all (\<lambda>t. profitLossPercent t = NaN) ts"
  shows "averageReturn ts = NaN"
proof (cases ts)
  case Nil
  then show ?thesis by (simp add: averageReturn_no_trades)
next
  case (Cons t ts')
  with assms have "reduce_sum (map profitLossPercent ts) = NaN"
    by (intro reduce_sum_NaN) (simp_all add: list_all_iff)
  then show ?thesis by (simp add: averageReturn_def)
qed

lemma returnDeviation_NaN:
  assumes "averageReturn ts = NaN"
  shows "returnDeviation ts = NaN"
proof (cases ts)
  case Nil
  then show ?thesis by (simp add: returnDeviation_no_trades)
next
  case (Cons t ts')
  have "reduce_sum (map (\<lambda>r. Math_pow2 (js_sub r NaN)) (map profitLossPercent ts)) = NaN"
    using Cons by (intro reduce_sum_NaN) (simp_all add: list_all_iff Math_pow2_def)
  then show ?thesis by (simp add: returnDeviation_def assms)
qed

lemma sharpeRatio_run:
  assumes "runBacktest mgr historicalData now cfg = Inr r"
  shows "sharpeRatio (summary r) = NaN"
proof -
  from assms obtain series where t: "trades r = runTrades (simulate mgr now cfg (filterByDate cfg series))"
    and s: "summary r = calculateSummary (trades r) (initialCapital cfg)
            (capital (simulate mgr now cfg (filterByDate cfg series)))
            (runMaxDrawdown (simulate mgr now cfg (filterByDate cfg series)))"
    by (rule runBacktest_Inr)
  have "list_all (\<lambda>t. profitLossPercent t = NaN) (trades r)"
    unfolding t by (rule returns_NaN_simulate)
  then have a: "averageReturn (trades r) = NaN" by (rule averageReturn_NaN)
  then have d: "returnDeviation (trades r) = NaN" by (rule returnDeviation_NaN)
  show ?thesis unfolding s by (simp add: sharpeRatio_calculateSummary a d)
qed

lemma calculateFitness_run:
  assumes "runBacktest mgr historicalData now cfg = Inr r"
  shows "calculateFitness r = NaN"
  by (simp add: calculateFitness_def Let_def sharpeRatio_run[OF assms] clamp01_def)

lemma optimizationRun_fitness:
  "list_all (\<lambda>x. fitness x = NaN) (optimizationRun mgr historicalData now cfg kp)"
  by (cases "runBacktest mgr historicalData (now (fst kp)) (cfg \<lparr> parameters := snd kp \<rparr>)")
     (simp_all add: optimizationRun_def calculateFitness_run)

lemma insertBy_NaN:
  "fitness x = NaN \<Longrightarrow> insertBy (\<lambda>a b. js_sub (fitness b) (fitness a)) x ys = x # ys"
  by (cases ys) (simp_all add: js_gt_def)

lemma array_sort_NaN:
  "list_all (\<lambda>x. fitness x = NaN) xs \<Longrightarrow> array_sort (\<lambda>a b. js_sub (fitness b) (fitness a)) xs = xs"
  unfolding array_sort_def by (induction xs) (simp_all add: insertBy_NaN)

lemma list_all_concat_map:
  "(\<And>x. list_all P (f x)) \<Longrightarrow> list_all P (concat (map f xs))"
  by (induction xs) simp_all

lemma optimizeStrategy_unsorted:
  "optimizeStrategy mgr historicalData now cfg parameterRanges =
     concat (map (optimizationRun mgr historicalData now cfg)
       (zip [0..<length (generateParameterCombinations parameterRanges)]
            (generateParameterCombinations parameterRanges)))"
  unfolding optimizeStrategy_def Let_def
  by (rule array_sort_NaN) (rule list_all_concat_map, rule optimizationRun_fitness)

lemma optimizeStrategy_fitness:
  "list_all (\<lambda>x. fitness x = NaN) (optimizeStrategy mgr historicalData now cfg parameterRanges)"
  unfolding optimizeStrategy_unsorted
  by (rule list_all_concat_map, rule optimizationRun_fitness)

lemma generateParameterCombinations_product:
  "generateParameterCombinations ranges
     = map (zip (map fst ranges)) (product_lists (map snd ranges))"
proof (induction ranges)
  case Nil
  show ?case by simp
next
  case (Cons kv ranges)
  obtain k vs where kv: "kv = (k, vs)" by (cases kv)
  show ?case unfolding kv
    by (simp add: Cons.IH map_concat comp_def)
qed

lemma length_generateParameterCombinations:
  "length (generateParameterCombinations ranges) = prod_list (map (\<lambda>kv. length (snd kv)) ranges)"
proof (induction ranges)
  case Nil
  show ?case by simp
next
  case (Cons kv ranges)
  obtain k vs where kv: "kv = (k, vs)" by (cases kv)
  show ?case unfolding kv
    by (simp add: Cons.IH length_concat comp_def sum_list_triv)
qed

lemma concat_map_Nil: "concat (map (\<lambda>v. []) vs) = []"
  by (induction vs) simp_all

lemma distinct_generateParameterCombinations:
  "list_all (\<lambda>kv. distinct (snd kv)) ranges \<Longrightarrow> distinct (generateParameterCombinations ranges)"
proof (induction ranges)
  case Nil
  show ?case by simp
next
  case (Cons kv ranges)
  obtain k vs where kv: "kv = (k, vs)" by (cases kv)
  from Cons.prems kv have dv: "distinct vs" and dr: "distinct (generateParameterCombinations ranges)"
    using Cons.IH by simp_all
  show ?case
  proof (cases "generateParameterCombinations ranges")
    case Nil
    then show ?thesis unfolding kv by (simp add: concat_map_Nil)
  next
    case (Cons c cs)
    show ?thesis unfolding kv generateParameterCombinations.simps
    proof (rule distinct_concat)
      have "inj_on (\<lambda>v. map (\<lambda>combination. (k, v) # combination) (generateParameterCombinations ranges)) (set vs)"
        by (rule inj_onI) (simp add: Cons)
      then show "distinct (map (\<lambda>v. map (\<lambda>combination. (k, v) # combination) (generateParameterCombinations ranges)) vs)"
        using dv by (simp add: distinct_map)
    next
      fix ys assume "ys \<in> set (map (\<lambda>v. map (\<lambda>combination. (k, v) # combination) (generateParameterCombinations ranges)) vs)"
      then show "distinct ys" using dr by (auto simp: distinct_map inj_on_def)
    next
      fix ys zs
      assume "ys \<in> set (map (\<lambda>v. map (\<lambda>combination. (k, v) # combination) (generateParameterCombinations ranges)) vs)"
        and "zs \<in> set (map (\<lambda>v. map (\<lambda>combination. (k, v) # combination) (generateParameterCombinations ranges)) vs)"
        and "ys \<noteq> zs"
      then show "set ys \<inter> set zs = {}" by auto
    qed
  qed
qed

lemma sample_combinations:
  "generateParameterCombinations sample_ranges =
     [[(''a'', Fin 1), (''b'', Fin 10)], [(''a'', Fin 1), (''b'', Fin 20)],
      [(''a'', Fin 2), (''b'', Fin 10)], [(''a'', Fin 2), (''b'', Fin 20)]]"
  by (simp add: sample_ranges_def)

lemma optimizationRun_sample:
  "map opt_parameters (optimizationRun mgr sample_data now (sample_config 49) kp) = [snd kp]
   \<and> map fitness (optimizationRun mgr sample_data now (sample_config 49) kp) = [NaN]"
proof -
  let ?cfg = "(sample_config 49) \<lparr> parameters := snd kp \<rparr>"
  have d: "sample_data (config_symbol ?cfg) = Some sample_series"
    by (simp add: sample_data_def sample_config_def)
  have "filterByDate ?cfg sample_series = filterByDate (sample_config 49) sample_series"
    by (simp add: filterByDate_def)
  then have l: "50 \<le> length (filterByDate ?cfg sample_series)"
    using length_filter_sample[of 49] by simp
  from runBacktest_succeeds[of sample_data ?cfg sample_series mgr "now (fst kp)", OF d l]
  obtain r where r: "runBacktest mgr sample_data (now (fst kp)) ?cfg = Inr r" by blast
  show ?thesis
    by (simp add: optimizationRun_def r calculateFitness_run[OF r])
qed

lemma upt_4: "[0..<4] = [0, 1, 2, 3]"
  by (simp add: upt_rec)

text \<open>
  Claim C5 on the code. The combinations are enumerated as the Cartesian product, each
  once (\<open>generateParameterCombinations_product\<close>, \<open>distinct_generateParameterCombinations\<close>),
  and a failing run contributes nothing. But the fitness of every result is \<open>NaN\<close>
  (\<open>optimizeStrategy_fitness\<close>): the Sharpe ratio of a run is \<open>0/0\<close> when it recorded
  no trade and is computed from \<open>NaN\<close> return percentages when it did. The comparator
  of the sort is then \<open>NaN\<close> for every pair and the results stay in the order of
  enumeration. For the ranges \<open>{a: [1, 2], b: [10, 20]}\<close> the four combinations are
  evaluated, all four have fitness \<open>NaN\<close>, and the first result's fitness is not
  greater than or equal to the last one's.
\<close>

theorem optimizeStrategy_fitness_not_a_number:
  "map opt_parameters
     (optimizeStrategy mgr_backtest sample_data sample_clocks (sample_config 49) sample_ranges)
     = [[(''a'', Fin 1), (''b'', Fin 10)], [(''a'', Fin 1), (''b'', Fin 20)],
        [(''a'', Fin 2), (''b'', Fin 10)], [(''a'', Fin 2), (''b'', Fin 20)]]
   \<and> map fitness
     (optimizeStrategy mgr_backtest sample_data sample_clocks (sample_config 49) sample_ranges)
     = [NaN, NaN, NaN, NaN]
   \<and> \<not> js_ge
       (fitness (hd (optimizeStrategy mgr_backtest sample_data sample_clocks (sample_config 49)
          sample_ranges)))
       (fitness (last (optimizeStrategy mgr_backtest sample_data sample_clocks (sample_config 49)
          sample_ranges)))"
proof -
  let ?res = "optimizeStrategy mgr_backtest sample_data sample_clocks (sample_config 49) sample_ranges"
  have p: "map opt_parameters ?res
     = [[(''a'', Fin 1), (''b'', Fin 10)], [(''a'', Fin 1), (''b'', Fin 20)],
        [(''a'', Fin 2), (''b'', Fin 10)], [(''a'', Fin 2), (''b'', Fin 20)]]"
    unfolding optimizeStrategy_unsorted sample_combinations
    by (simp add: upt_4 optimizationRun_sample)
  have f: "map fitness ?res = [NaN, NaN, NaN, NaN]"
    unfolding optimizeStrategy_unsorted sample_combinations
    by (simp add: upt_4 optimizationRun_sample)
  from f obtain a b c d where abcd: "?res = [a, b, c, d]" and "fitness a = NaN" "fitness d = NaN"
    by auto
  then have "\<not> js_ge (fitness (hd ?res)) (fitness (last ?res))"
    by (simp add: js_ge_def)
  with p f show ?thesis by blast
qed

end
